theory Spec2Isabelle
  imports Complex_Main "HOL-Library.AList"
begin

section \<open>JavaScript strings and values\<close>

text \<open>
  Strings are byte lists. The three string primitives the sources use are
  \<^verbatim>\<open>s.startsWith(p)\<close>, \<^verbatim>\<open>s.includes(sub)\<close> and the truthiness test
  (the empty string is the only falsy string).
\<close>

fun startsWith :: "string \<Rightarrow> string \<Rightarrow> bool" where
  "startsWith s [] = True"
| "startsWith [] (p # ps) = False"
| "startsWith (c # cs) (p # ps) = (c = p \<and> startsWith cs ps)"

fun str_includes :: "string \<Rightarrow> string \<Rightarrow> bool" where
  "str_includes [] sub = (sub = [])"
| "str_includes (c # cs) sub = (startsWith (c # cs) sub \<or> str_includes cs sub)"

text \<open>
  Numbers interpolated into template strings are rendered in decimal; the digits are
  produced least significant first and collected in front of the accumulator.
\<close>

definition digit_char :: "nat \<Rightarrow> char" where
  "digit_char d = ''0123456789'' ! (d mod 10)"

function decimal_acc :: "nat \<Rightarrow> string \<Rightarrow> string" where
  "decimal_acc n acc =
     (let acc' = digit_char n # acc in
      if n div 10 = 0 then acc' else decimal_acc (n div 10) acc')"
  by pat_completeness auto
termination
  by (relation "measure fst") auto

definition string_of_int :: "int \<Rightarrow> string" where
  "string_of_int i =
     (if i < 0 then CHR ''-'' # decimal_acc (nat (- i)) [] else decimal_acc (nat i) [])"

text \<open>The UTF-8 bytes of the em dash that occurs in several messages.\<close>

definition em_dash :: string where
  "em_dash = [char_of (0xE2 :: nat), char_of (0x80 :: nat), char_of (0x94 :: nat)]"

section \<open>Error Classifier (src/grok/client.ts, classifyError)\<close>

text \<open>
  A thrown value as \<^verbatim>\<open>classifyError\<close> reads it: the optional properties
  \<^verbatim>\<open>name\<close>, \<^verbatim>\<open>code\<close>, \<^verbatim>\<open>message\<close>, \<^verbatim>\<open>status\<close>, \<^verbatim>\<open>statusCode\<close>,
  \<^verbatim>\<open>response.status\<close> (\<open>None\<close> is null or undefined) and the rendering
  \<^verbatim>\<open>String(error)\<close> used when there is no message.
\<close>

record thrown =
  err_name :: "string option"
  err_code :: "string option"
  err_message :: "string option"
  err_status :: "int option"
  err_statusCode :: "int option"
  err_response_status :: "int option"
  err_String :: string

record ApiErrorInfo =
  info_status :: "int option"
  info_code :: string
  info_message :: string
  info_retryable :: bool

text \<open>The operator \<^verbatim>\<open>a ?? b\<close>.\<close>

definition nullish :: "'a option \<Rightarrow> 'a option \<Rightarrow> 'a option" where
  "nullish a b = (case a of Some x \<Rightarrow> Some x | None \<Rightarrow> b)"

definition error_msg :: "thrown \<Rightarrow> string" where
  "error_msg error = (case err_message error of Some m \<Rightarrow> m | None \<Rightarrow> err_String error)"

definition error_status :: "thrown \<Rightarrow> int option" where
  "error_status error =
     nullish (err_status error) (nullish (err_statusCode error) (err_response_status error))"

definition is_timeout :: "thrown \<Rightarrow> bool" where
  "is_timeout error \<longleftrightarrow>
     err_name error = Some ''AbortError'' \<or> err_code error = Some ''ECONNABORTED''
     \<or> str_includes (error_msg error) ''timeout'' \<or> str_includes (error_msg error) ''Timeout''"

definition is_network :: "thrown \<Rightarrow> bool" where
  "is_network error \<longleftrightarrow>
     err_code error = Some ''ECONNREFUSED'' \<or> err_code error = Some ''ENOTFOUND''
     \<or> err_code error = Some ''ECONNRESET''
     \<or> str_includes (error_msg error) ''fetch failed'' \<or> str_includes (error_msg error) ''network''
     \<or> str_includes (error_msg error) ''bad port'' \<or> str_includes (error_msg error) ''Cannot connect''"

definition is_malformed :: "thrown \<Rightarrow> bool" where
  "is_malformed error \<longleftrightarrow>
     str_includes (error_msg error) ''JSON'' \<or> str_includes (error_msg error) ''Unexpected token''
     \<or> str_includes (error_msg error) ''parse''"

definition classifyError :: "thrown \<Rightarrow> ApiErrorInfo" where
  "classifyError error =
    (let msg = error_msg error; status = error_status error in
     if is_timeout error then
       \<lparr>info_status = None, info_code = ''timeout'',
        info_message = ''Request timed out. Please try again.'', info_retryable = True\<rparr>
     else if is_network error then
       \<lparr>info_status = None, info_code = ''network'',
        info_message = ''Network error '' @ em_dash @
          '' could not reach the Grok API. Check your internet connection and base URL.'',
        info_retryable = True\<rparr>
     else if status = Some 400 then
       \<lparr>info_status = status, info_code = ''bad_request'',
        info_message = ''Bad request (400). Check your request parameters. This can also indicate an incorrect API key ''
          @ em_dash @ '' verify your key at https://console.x.ai.'',
        info_retryable = False\<rparr>
     else if status = Some 401 then
       \<lparr>info_status = status, info_code = ''auth'',
        info_message = ''Authentication failed (401). Your API key is invalid or expired. Update it in ~/.grok/user-settings.json or set the GROK_API_KEY environment variable. Get a new key at https://console.x.ai.'',
        info_retryable = False\<rparr>
     else if status = Some 403 then
       \<lparr>info_status = status, info_code = ''auth'',
        info_message = ''Access denied (403). Your API key does not have permission, or your account may be blocked. Contact your team admin or check https://console.x.ai.'',
        info_retryable = False\<rparr>
     else if status = Some 404 then
       \<lparr>info_status = status, info_code = ''not_found'',
        info_message = ''Not found (404). The specified model may not exist or the API endpoint URL is incorrect. Check the model name and API base URL.'',
        info_retryable = False\<rparr>
     else if status = Some 429 then
       \<lparr>info_status = status, info_code = ''rate_limit'',
        info_message = ''Rate limited (429). Retrying automatically with backoff... To request higher limits, email support@x.ai.'',
        info_retryable = True\<rparr>
     else if (case status of None \<Rightarrow> False | Some st \<Rightarrow> st \<ge> 500) then
       \<lparr>info_status = status, info_code = ''server'',
        info_message = ''Grok API server error ('' @ string_of_int (the status) @
          ''). The service may be temporarily unavailable. Check https://status.x.ai for updates.'',
        info_retryable = True\<rparr>
     else if is_malformed error then
       \<lparr>info_status = status, info_code = ''malformed'',
        info_message = ''Received a malformed response from the Grok API.'', info_retryable = True\<rparr>
     else
       \<lparr>info_status = status, info_code = ''unknown'', info_message = msg, info_retryable = False\<rparr>)"

section \<open>Data model\<close>

text \<open>
  A JavaScript value as the agent meets it: the result of \<^verbatim>\<open>JSON.parse\<close>, a property
  read from it (\<open>JUndefined\<close> when the property is missing) or the result of
  \<^verbatim>\<open>Math.min\<close> (\<open>JNaN\<close> when the operand is not a number).
\<close>

datatype jsv =
    JUndefined
  | JNull
  | JBool bool
  | JNum real
  | JNaN
  | JStr string
  | JArr "jsv list"
  | JObj "(string \<times> jsv) list"

fun truthy :: "jsv \<Rightarrow> bool" where
  "truthy JUndefined = False"
| "truthy JNull = False"
| "truthy (JBool b) = b"
| "truthy (JNum x) = (x \<noteq> 0)"
| "truthy JNaN = False"
| "truthy (JStr s) = (s \<noteq> [])"
| "truthy (JArr xs) = True"
| "truthy (JObj kvs) = True"

text \<open>\<^verbatim>\<open>a || b\<close> on optional strings: the empty string and undefined are falsy.\<close>

definition str_or :: "string option \<Rightarrow> string option \<Rightarrow> string option" where
  "str_or a b = (case a of Some x \<Rightarrow> (if x \<noteq> [] then Some x else b) | None \<Rightarrow> b)"

definition str_or_default :: "string option \<Rightarrow> string \<Rightarrow> string" where
  "str_or_default a d = (case a of Some x \<Rightarrow> (if x \<noteq> [] then x else d) | None \<Rightarrow> d)"

text \<open>What the program throws: the structured API error, or any other (raw) value.\<close>

datatype exn = GrokApiError ApiErrorInfo | Raw thrown

definition js_Error :: "string \<Rightarrow> string \<Rightarrow> thrown" where
  "js_Error nm m = \<lparr>err_name = Some nm, err_code = None, err_message = Some m,
     err_status = None, err_statusCode = None, err_response_status = None,
     err_String = nm @ '': '' @ m\<rparr>"

definition js_undefined :: thrown where
  "js_undefined = \<lparr>err_name = None, err_code = None, err_message = None,
     err_status = None, err_statusCode = None, err_response_status = None,
     err_String = ''undefined''\<rparr>"

subsection \<open>Wire types of src/grok/client.ts\<close>

record GrokTool =
  tool_name :: string
  tool_description :: string
  tool_parameters :: jsv

record GrokToolCall =
  tc_id :: string
  tc_type :: string
  tc_name :: "string option"
  tc_arguments :: string

record SearchParameters =
  sp_mode :: "string option"

record SearchOptions =
  search_parameters :: "SearchParameters option"

record response_message =
  rm_role :: string
  rm_content :: "string option"
  rm_tool_calls :: "GrokToolCall list option"

record choice =
  choice_message :: response_message
  finish_reason :: string

record GrokResponse =
  choices :: "choice list"

text \<open>
  Messages of the history in the shape the SDK expects: the content is a string or a list of
  parts (text, tool-call with the parsed input, tool-result with a text or error-text output).
\<close>

datatype tool_output = OutText string | OutErrorText string

datatype ContentPart =
    TextPart string
  | ToolCallPart string "string option" jsv
  | ToolResultPart string "string option" tool_output

datatype message_content = Text string | Parts "ContentPart list"

record GrokMessage =
  msg_role :: string
  msg_content :: message_content

subsection \<open>Types of src/agent/grok-agent.ts\<close>

record ToolResult =
  res_success :: bool
  res_output :: "string option"
  res_error :: "string option"

datatype entry_type = user | assistant | tool_result | tool_call

record ChatEntry =
  entry_type :: entry_type
  entry_content :: string
  entry_timestamp :: nat
  entry_toolCalls :: "GrokToolCall list option"
  entry_toolCall :: "GrokToolCall option"
  entry_toolResult :: "ToolResult option"
  entry_isStreaming :: "bool option"

datatype StreamingChunk =
    Content string
  | ToolCalls "GrokToolCall list"
  | ToolResultChunk GrokToolCall ToolResult
  | Done
  | TokenCount int

subsection \<open>What the SDK and the collaborators exchange with the program\<close>

text \<open>The argument object of \<^verbatim>\<open>generateText\<close> and \<^verbatim>\<open>streamText\<close>.\<close>

record request =
  req_model :: string
  req_baseURL :: "string option"
  req_messages :: "GrokMessage list"
  req_tools :: "(string \<times> string \<times> jsv) list option"
  req_toolChoice :: "string option"
  req_temperature :: real
  req_maxOutputTokens :: nat
  req_providerOptions :: "SearchParameters option"

record sdk_toolcall =
  sdk_toolCallId :: "string option"
  sdk_id :: "string option"
  sdk_toolName :: "string option"
  sdk_name :: "string option"
  sdk_input :: jsv

record sdk_response =
  sdk_text :: string
  sdk_finishReason :: "string option"
  sdk_toolCalls :: "sdk_toolcall list option"

datatype sdk_chunk =
    TextDelta "string option"
  | ToolCallChunk string string jsv
  | OtherChunk string

text \<open>
  One event of \<^verbatim>\<open>chatStream\<close>, that is \<^verbatim>\<open>chunk.choices[0].delta\<close>: a text delta or a
  list of tool calls.
\<close>

record delta_toolcall =
  dtc_id :: string
  dtc_type :: "string option"
  dtc_name :: "string option"
  dtc_arguments :: "string option"

record delta =
  delta_content :: "string option"
  delta_tool_calls :: "delta_toolcall list option"

datatype mcp_item = TextItem string | ResourceItem "string option" | OtherItem string

record mcp_result =
  isError :: bool
  mcp_content :: "mcp_item list"

subsection \<open>Log lines and the observation trace\<close>

text \<open>
  The lines \<^verbatim>\<open>appendLine\<close> receives from the logger, without the timestamp prefix. A body
  is kept as a value (\<open>None\<close> is the rendering \<^verbatim>\<open>(no body)\<close>) and the error passed to
  \<^verbatim>\<open>logger.error\<close> is kept as the thrown value.
\<close>

datatype log_line =
    ERROR string "thrown option"
  | WARN string
  | INFO string
  | DEBUG string
  | API_REQUEST string string "jsv option"
  | API_RESPONSE int "jsv option"
  | API_ERROR string string "int + string" "string option"

text \<open>
  The trace lists, in program order, what a run does to its surroundings and to the
  history: lines handed to \<^verbatim>\<open>appendLine\<close>, requests issued to the SDK, back-off sleeps,
  reads of the abort signal with their result, events yielded to the consumer, tool calls
  dispatched, and messages appended to the history.
\<close>

datatype trace_event =
    AppendLine log_line
  | GenerateText request
  | StreamText request
  | Sleep real
  | AbortRead bool
  | Yield StreamingChunk
  | ExecuteTool GrokToolCall
  | PushMessage GrokMessage

record 'w sys =
  world :: 'w
  trace :: "trace_event list"

text \<open>
  Everything outside the program is a parameter: the platform functions, the SDK, the
  collaborators and the host. Each takes the state of the world and returns the new one.
  A stream of the SDK is given by the chunks it delivers and the error, if any, that ends it.
\<close>

record 'w env =
  JSON_parse :: "string \<Rightarrow> thrown + jsv"
  JSON_stringify :: "jsv \<Rightarrow> string"
  StringToNumber :: "jsv \<Rightarrow> real option"
  Math_random :: "'w \<Rightarrow> real \<times> 'w"
  Date_now :: "'w \<Rightarrow> nat"
  GROK_DEBUG :: "'w \<Rightarrow> bool"
  setTimeout :: "real \<Rightarrow> 'w \<Rightarrow> 'w"
  generateText :: "request \<Rightarrow> 'w \<Rightarrow> (thrown + sdk_response) \<times> 'w"
  streamText :: "request \<Rightarrow> 'w \<Rightarrow> (sdk_chunk list \<times> thrown option) \<times> 'w"
  getAllGrokTools :: "'w \<Rightarrow> GrokTool list \<times> 'w"
  countMessageTokens :: "GrokMessage list \<Rightarrow> int"
  collaborator :: "string \<Rightarrow> jsv list \<Rightarrow> 'w \<Rightarrow> (thrown + ToolResult) \<times> 'w"
  syncDirectory :: "'w \<Rightarrow> 'w"
  mcp_callTool :: "string option \<Rightarrow> jsv \<Rightarrow> 'w \<Rightarrow> (thrown + mcp_result) \<times> 'w"
  signal_aborted :: "'w \<Rightarrow> bool"
  consumer :: "StreamingChunk \<Rightarrow> 'w \<Rightarrow> 'w"

definition record_event :: "trace_event \<Rightarrow> 'w sys \<Rightarrow> 'w sys" where
  "record_event ev s = s\<lparr>trace := trace s @ [ev]\<rparr>"

section \<open>Logger (utils/logger)\<close>

definition appendLine :: "log_line \<Rightarrow> 'w sys \<Rightarrow> 'w sys" where
  "appendLine line s = record_event (AppendLine line) s"

definition isDebug :: "'w env \<Rightarrow> 'w sys \<Rightarrow> bool" where
  "isDebug env s = GROK_DEBUG env (world s)"

definition logger_error :: "string \<Rightarrow> thrown option \<Rightarrow> 'w sys \<Rightarrow> 'w sys" where
  "logger_error message error s = appendLine (ERROR message error) s"

definition logger_info :: "'w env \<Rightarrow> string \<Rightarrow> 'w sys \<Rightarrow> 'w sys" where
  "logger_info env message s = (if isDebug env s then appendLine (INFO message) s else s)"

definition safeBody :: "jsv \<Rightarrow> jsv option" where
  "safeBody body = (if truthy body then Some body else None)"

definition logApiRequest :: "'w env \<Rightarrow> string \<Rightarrow> string \<Rightarrow> jsv \<Rightarrow> 'w sys \<Rightarrow> 'w sys" where
  "logApiRequest env method endpoint body s =
     (if \<not> isDebug env s then s
      else appendLine (API_REQUEST method endpoint (safeBody body)) s)"

definition logApiResponse :: "'w env \<Rightarrow> int \<Rightarrow> jsv \<Rightarrow> 'w sys \<Rightarrow> 'w sys" where
  "logApiResponse env status body s =
     (if \<not> isDebug env s then s
      else appendLine (API_RESPONSE status (safeBody body)) s)"

definition logApiError ::
  "string \<Rightarrow> string \<Rightarrow> int + string \<Rightarrow> string option \<Rightarrow> 'w sys \<Rightarrow> 'w sys" where
  "logApiError method endpoint status errorBody s =
     appendLine (API_ERROR method endpoint status (str_or errorBody None)) s"

section \<open>Model Transport (src/grok/client.ts, GrokClient)\<close>

definition MAX_RETRIES :: nat where
  "MAX_RETRIES = 3"

definition BASE_DELAY_MS :: real where
  "BASE_DELAY_MS = 1000"

record GrokClient =
  currentModel :: string
  defaultMaxTokens :: nat
  baseURL :: "string option"

definition convertTools :: "GrokTool list option \<Rightarrow> (string \<times> string \<times> jsv) list" where
  "convertTools tools =
     (case tools of None \<Rightarrow> []
      | Some ts \<Rightarrow>
          foldl (\<lambda>result tool.
                   AList.update (tool_name tool) (tool_description tool, tool_parameters tool) result)
                [] ts)"

definition convertToolCall :: "'w env \<Rightarrow> 'w \<Rightarrow> sdk_toolcall \<Rightarrow> GrokToolCall" where
  "convertToolCall env w tc =
     \<lparr>tc_id = str_or_default (str_or (sdk_toolCallId tc) (sdk_id tc))
                (''call_'' @ string_of_int (int (Date_now env w))),
      tc_type = ''function'',
      tc_name = str_or (sdk_toolName tc) (sdk_name tc),
      tc_arguments =
        (case sdk_input tc of
           JStr str \<Rightarrow> str
         | JUndefined \<Rightarrow> JSON_stringify env (JObj [])
         | JNull \<Rightarrow> JSON_stringify env (JObj [])
         | v \<Rightarrow> JSON_stringify env v)\<rparr>"

definition convertToolCalls ::
  "'w env \<Rightarrow> 'w \<Rightarrow> sdk_toolcall list option \<Rightarrow> GrokToolCall list" where
  "convertToolCalls env w toolCalls =
     (case toolCalls of None \<Rightarrow> [] | Some tcs \<Rightarrow> map (convertToolCall env w) tcs)"

definition endpoint_of :: "GrokClient \<Rightarrow> string" where
  "endpoint_of c = str_or_default (baseURL c) ''https://api.x.ai/v1''"

definition modelId_of :: "GrokClient \<Rightarrow> string option \<Rightarrow> string" where
  "modelId_of c model = str_or_default model (currentModel c)"

definition build_request ::
  "GrokClient \<Rightarrow> GrokMessage list \<Rightarrow> GrokTool list option \<Rightarrow> string option \<Rightarrow>
   SearchOptions option \<Rightarrow> request" where
  "build_request c msgs tools model searchOptions =
     (let convertedTools = convertTools tools;
          hasTools = (convertedTools \<noteq> [])
      in \<lparr>req_model = modelId_of c model,
          req_baseURL = str_or (baseURL c) None,
          req_messages = msgs,
          req_tools = (if hasTools then Some convertedTools else None),
          req_toolChoice = (if hasTools then Some ''auto'' else None),
          req_temperature = 7 / 10,
          req_maxOutputTokens = defaultMaxTokens c,
          req_providerOptions =
            (case searchOptions of None \<Rightarrow> None | Some so \<Rightarrow> search_parameters so)\<rparr>)"

definition request_log_body :: "GrokMessage list \<Rightarrow> GrokTool list option \<Rightarrow> jsv" where
  "request_log_body msgs tools =
     JObj [(''messageCount'', JNum (real (length msgs))),
           (''hasTools'', JBool (case tools of None \<Rightarrow> False | Some ts \<Rightarrow> ts \<noteq> []))]"

definition call_label :: "GrokClient \<Rightarrow> string option \<Rightarrow> string \<Rightarrow> string" where
  "call_label c model path =
     endpoint_of c @ path @ '' (model='' @ modelId_of c model @ '')''"

definition status_or_code :: "ApiErrorInfo \<Rightarrow> int + string" where
  "status_or_code info = (case info_status info of Some st \<Rightarrow> Inl st | None \<Rightarrow> Inr (info_code info))"

definition retry_message :: "string \<Rightarrow> real \<Rightarrow> nat \<Rightarrow> ApiErrorInfo \<Rightarrow> string" where
  "retry_message what delay attempt info =
     ''Retrying '' @ what @ ''() in '' @ string_of_int (round delay) @ ''ms (attempt ''
       @ string_of_int (int (attempt + 1)) @ ''/'' @ string_of_int (int MAX_RETRIES) @ '') ''
       @ em_dash @ '' '' @ info_code info"

text \<open>
  The two halves of the catch block shared by \<^verbatim>\<open>chat\<close> and \<^verbatim>\<open>chatStream\<close>: logging
  the failure, and the back-off before the next attempt.
\<close>

definition log_failure ::
  "string \<Rightarrow> string \<Rightarrow> thrown \<Rightarrow> ApiErrorInfo \<Rightarrow> 'w sys \<Rightarrow> 'w sys" where
  "log_failure label failed error info s =
     logger_error failed (Some error)
       (logApiError ''POST'' label (status_or_code info) (err_message error) s)"

definition backoff :: "'w env \<Rightarrow> string \<Rightarrow> nat \<Rightarrow> ApiErrorInfo \<Rightarrow> 'w sys \<Rightarrow> 'w sys" where
  "backoff env what attempt info s =
     (let (r, w) = Math_random env (world s);
          delay = BASE_DELAY_MS * 2 ^ attempt + r * 500;
          s1 = logger_info env (retry_message what delay attempt info) (s\<lparr>world := w\<rparr>);
          s2 = record_event (Sleep delay) s1
      in s2\<lparr>world := setTimeout env delay (world s2)\<rparr>)"

definition to_response :: "'w env \<Rightarrow> 'w \<Rightarrow> sdk_response \<Rightarrow> GrokResponse" where
  "to_response env w response =
     \<lparr>choices = [\<lparr>choice_message =
          \<lparr>rm_role = ''assistant'',
           rm_content = str_or (Some (sdk_text response)) None,
           rm_tool_calls = Some (convertToolCalls env w (sdk_toolCalls response))\<rparr>,
        finish_reason = str_or_default (sdk_finishReason response) ''stop''\<rparr>]\<rparr>"

definition response_log_body :: "sdk_response \<Rightarrow> jsv" where
  "response_log_body response =
     JObj [(''finishReason'', (case sdk_finishReason response of None \<Rightarrow> JUndefined | Some f \<Rightarrow> JStr f)),
           (''hasToolCalls'', JBool (case sdk_toolCalls response of None \<Rightarrow> False | Some tcs \<Rightarrow> tcs \<noteq> []))]"

function chat_attempts ::
  "'w env \<Rightarrow> GrokClient \<Rightarrow> GrokMessage list \<Rightarrow> GrokTool list option \<Rightarrow> string option \<Rightarrow>
   SearchOptions option \<Rightarrow> nat \<Rightarrow> thrown \<Rightarrow> 'w sys \<Rightarrow> (exn + GrokResponse) \<times> 'w sys" where
  "chat_attempts env c msgs tools model searchOptions attempt lastError s =
     (if attempt \<le> MAX_RETRIES then
        (let req = build_request c msgs tools model searchOptions;
             s1 = record_event (GenerateText req) s;
             (r, w) = generateText env req (world s1);
             s2 = s1\<lparr>world := w\<rparr>
         in case r of
              Inr response \<Rightarrow>
                (Inr (to_response env (world s2) response),
                 logApiResponse env 200 (response_log_body response) s2)
            | Inl error \<Rightarrow>
                (let info = classifyError error;
                     s3 = log_failure (call_label c model ''/chat'') ''GrokClient.chat failed''
                            error info s2
                 in if info_retryable info \<and> attempt < MAX_RETRIES
                    then chat_attempts env c msgs tools model searchOptions (attempt + 1) error
                           (backoff env ''chat'' attempt info s3)
                    else (Inl (GrokApiError info), s3)))
      else (Inl (GrokApiError (classifyError lastError)), s))"
  by pat_completeness auto
termination
  by (relation "measure (\<lambda>(env, c, msgs, tools, model, so, attempt, e, s). MAX_RETRIES + 1 - attempt)")
     auto

declare chat_attempts.simps [simp del]

definition chat ::
  "'w env \<Rightarrow> GrokClient \<Rightarrow> GrokMessage list \<Rightarrow> GrokTool list option \<Rightarrow> string option \<Rightarrow>
   SearchOptions option \<Rightarrow> 'w sys \<Rightarrow> (exn + GrokResponse) \<times> 'w sys" where
  "chat env c msgs tools model searchOptions s =
     chat_attempts env c msgs tools model searchOptions 0 js_undefined
       (logApiRequest env ''POST'' (call_label c model ''/chat'') (request_log_body msgs tools) s)"

text \<open>
  \<^verbatim>\<open>chatStream\<close> is a generator. It is modelled with its consumer: \<open>body\<close> is the body
  of the consumer's \<^verbatim>\<open>for await\<close> loop, run on every event the generator yields with the
  consumer's loop variables \<open>acc\<close>; \<open>Break\<close> is the consumer leaving the loop, which closes
  the generator at the pending \<^verbatim>\<open>yield\<close>.
\<close>

datatype 'a step = Next 'a | Break 'a

datatype 'a stream_result = StreamDone 'a | StreamBreak 'a | StreamThrew exn

definition stringify_opt :: "'w env \<Rightarrow> jsv \<Rightarrow> string option" where
  "stringify_opt env v = (if v = JUndefined then None else Some (JSON_stringify env v))"

definition to_delta :: "'w env \<Rightarrow> sdk_chunk \<Rightarrow> delta option" where
  "to_delta env chunk =
     (case chunk of
        TextDelta t \<Rightarrow> Some \<lparr>delta_content = t, delta_tool_calls = None\<rparr>
      | ToolCallChunk toolCallId toolName input \<Rightarrow>
          Some \<lparr>delta_content = None,
                delta_tool_calls = Some [\<lparr>dtc_id = toolCallId, dtc_type = Some ''function'',
                  dtc_name = Some toolName, dtc_arguments = stringify_opt env input\<rparr>]\<rparr>
      | OtherChunk ty \<Rightarrow> None)"

fun stream_chunks ::
  "'w env \<Rightarrow> ('a \<Rightarrow> delta \<Rightarrow> 'w sys \<Rightarrow> 'a step \<times> 'w sys) \<Rightarrow> sdk_chunk list \<Rightarrow> 'a \<Rightarrow> 'w sys \<Rightarrow>
   'a step \<times> 'w sys" where
  "stream_chunks env body [] acc s = (Next acc, s)"
| "stream_chunks env body (chunk # chunks) acc s =
     (case to_delta env chunk of
        None \<Rightarrow> stream_chunks env body chunks acc s
      | Some d \<Rightarrow>
          (case body acc d s of
             (Break a, s') \<Rightarrow> (Break a, s')
           | (Next a, s') \<Rightarrow> stream_chunks env body chunks a s'))"

function chatStream_attempts ::
  "'w env \<Rightarrow> GrokClient \<Rightarrow> GrokMessage list \<Rightarrow> GrokTool list option \<Rightarrow> string option \<Rightarrow>
   SearchOptions option \<Rightarrow> ('a \<Rightarrow> delta \<Rightarrow> 'w sys \<Rightarrow> 'a step \<times> 'w sys) \<Rightarrow>
   nat \<Rightarrow> thrown \<Rightarrow> 'a \<Rightarrow> 'w sys \<Rightarrow> 'a stream_result \<times> 'w sys" where
  "chatStream_attempts env c msgs tools model searchOptions body attempt lastError acc s =
     (if attempt \<le> MAX_RETRIES then
        (let req = build_request c msgs tools model searchOptions;
             s1 = record_event (StreamText req) s;
             ((chunks, failure), w) = streamText env req (world s1);
             s2 = s1\<lparr>world := w\<rparr>
         in case stream_chunks env body chunks acc s2 of
              (Break a, s3) \<Rightarrow> (StreamBreak a, s3)
            | (Next a, s3) \<Rightarrow>
                (case failure of
                   None \<Rightarrow>
                     (StreamDone a, logApiResponse env 200 (JObj [(''stream'', JBool True)]) s3)
                 | Some error \<Rightarrow>
                     (let info = classifyError error;
                          s4 = log_failure (call_label c model ''/chat/stream'')
                                 ''GrokClient.chatStream failed'' error info s3
                      in if info_retryable info \<and> attempt < MAX_RETRIES
                         then chatStream_attempts env c msgs tools model searchOptions body
                                (attempt + 1) error a (backoff env ''chatStream'' attempt info s4)
                         else (StreamThrew (GrokApiError info), s4))))
      else (StreamThrew (GrokApiError (classifyError lastError)), s))"
  by pat_completeness auto
termination
  by (relation "measure (\<lambda>(env, c, msgs, tools, model, so, body, attempt, e, acc, s).
                  MAX_RETRIES + 1 - attempt)")
     auto

declare chatStream_attempts.simps [simp del]

definition chatStream ::
  "'w env \<Rightarrow> GrokClient \<Rightarrow> GrokMessage list \<Rightarrow> GrokTool list option \<Rightarrow> string option \<Rightarrow>
   SearchOptions option \<Rightarrow> ('a \<Rightarrow> delta \<Rightarrow> 'w sys \<Rightarrow> 'a step \<times> 'w sys) \<Rightarrow> 'a \<Rightarrow> 'w sys \<Rightarrow>
   'a stream_result \<times> 'w sys" where
  "chatStream env c msgs tools model searchOptions body acc s =
     chatStream_attempts env c msgs tools model searchOptions body 0 js_undefined acc
       (logApiRequest env ''POST'' (call_label c model ''/chat/stream'')
          (request_log_body msgs tools) s)"

text \<open>\<^verbatim>\<open>search\<close>: one buffered call with a single user message and the directive on.\<close>

definition search :: "'w env \<Rightarrow> GrokClient \<Rightarrow> string \<Rightarrow> SearchParameters option \<Rightarrow> 'w sys \<Rightarrow>
   (exn + GrokResponse) \<times> 'w sys" where
  "search env c query searchParameters s =
     chat env c [\<lparr>msg_role = ''user'', msg_content = Text query\<rparr>] (Some []) None
       (Some \<lparr>search_parameters =
          Some (case searchParameters of Some sp \<Rightarrow> sp | None \<Rightarrow> \<lparr>sp_mode = Some ''on''\<rparr>)\<rparr>) s"

section \<open>Agent (src/agent/grok-agent.ts)\<close>

record GrokAgent =
  grokClient :: GrokClient
  morphEditor :: bool
  chatHistory :: "ChatEntry list"
  messages :: "GrokMessage list"
  abortController :: bool
  maxToolRounds :: int

text \<open>
  The fields \<open>morphEditor\<close> and \<open>abortController\<close> record whether the reference is non-null.
  The constructor sets the round limit with \<^verbatim>\<open>maxToolRounds || 400\<close>.
\<close>

definition configured_maxToolRounds :: "int option \<Rightarrow> int" where
  "configured_maxToolRounds m = (case m of Some n \<Rightarrow> (if n \<noteq> 0 then n else 400) | None \<Rightarrow> 400)"

subsection \<open>Search directive\<close>

text \<open>
  \<^verbatim>\<open>toLowerCase\<close> on the letters A to Z; a string is its sequence of bytes, and the
  bytes of other characters are kept. The result only selects the search directive of a request.
\<close>

definition toLowerCase :: "string \<Rightarrow> string" where
  "toLowerCase str =
     map (\<lambda>ch. let n = (of_char ch :: nat) in
                 if 65 \<le> n \<and> n \<le> 90 then char_of (n + 32) else ch) str"

definition search_keywords :: "string list" where
  "search_keywords =
     [''today'', ''latest'', ''news'', ''trending'', ''breaking'', ''current'', ''now'', ''recent'',
      ''x.com'', ''twitter'', ''tweet'', ''what happened'', ''as of'', ''update on'',
      ''release notes'', ''changelog'', ''price'', ''weather'']"

definition is_digit :: "char \<Rightarrow> bool" where
  "is_digit ch \<longleftrightarrow> 48 \<le> (of_char ch :: nat) \<and> (of_char ch :: nat) \<le> 57"

text \<open>The pattern \<^verbatim>\<open>/(20\d{2})/\<close>.\<close>

fun has_year :: "string \<Rightarrow> bool" where
  "has_year (a # b # c # d # rest) =
     ((a = CHR ''2'' \<and> b = CHR ''0'' \<and> is_digit c \<and> is_digit d) \<or> has_year (b # c # d # rest))"
| "has_year str = False"

definition shouldUseSearchFor :: "string \<Rightarrow> bool" where
  "shouldUseSearchFor message =
     (let q = toLowerCase message in
      if list_ex (\<lambda>k. str_includes q k) search_keywords then True
      else if has_year q then True
      else False)"

definition isGrokModel :: "GrokAgent \<Rightarrow> bool" where
  "isGrokModel st = startsWith (currentModel (grokClient st)) ''grok''"

definition getSearchOptions :: "GrokAgent \<Rightarrow> string \<Rightarrow> SearchOptions option" where
  "getSearchOptions st message =
     (if isGrokModel st \<and> shouldUseSearchFor message
      then Some \<lparr>search_parameters = Some \<lparr>sp_mode = Some ''auto''\<rparr>\<rparr>
      else None)"

subsection \<open>Messages of the history\<close>

fun tool_call_parts :: "'w env \<Rightarrow> GrokToolCall list \<Rightarrow> thrown + ContentPart list" where
  "tool_call_parts env [] = Inr []"
| "tool_call_parts env (tc # tcs) =
     (case JSON_parse env (tc_arguments tc) of
        Inl e \<Rightarrow> Inl e
      | Inr input \<Rightarrow>
          (case tool_call_parts env tcs of
             Inl e \<Rightarrow> Inl e
           | Inr parts \<Rightarrow> Inr (ToolCallPart (tc_id tc) (tc_name tc) input # parts)))"

definition buildAssistantMessage :: "'w env \<Rightarrow> response_message \<Rightarrow> thrown + GrokMessage" where
  "buildAssistantMessage env responseMessage =
     (case rm_tool_calls responseMessage of
        None \<Rightarrow> Inr \<lparr>msg_role = ''assistant'',
                     msg_content = Text (str_or_default (rm_content responseMessage) '''')\<rparr>
      | Some tcs \<Rightarrow>
          if tcs = [] then
            Inr \<lparr>msg_role = ''assistant'',
                 msg_content = Text (str_or_default (rm_content responseMessage) '''')\<rparr>
          else
            (case tool_call_parts env tcs of
               Inl e \<Rightarrow> Inl e
             | Inr parts \<Rightarrow>
                 Inr \<lparr>msg_role = ''assistant'',
                      msg_content = Parts
                        ((case str_or (rm_content responseMessage) None of
                            Some c \<Rightarrow> [TextPart c] | None \<Rightarrow> []) @ parts)\<rparr>))"

definition buildToolResultMessage :: "GrokToolCall \<Rightarrow> ToolResult \<Rightarrow> GrokMessage" where
  "buildToolResultMessage toolCall result =
     \<lparr>msg_role = ''tool'',
      msg_content = Parts [ToolResultPart (tc_id toolCall) (tc_name toolCall)
        (if res_success result
         then OutText (str_or_default (res_output result) ''Success'')
         else OutErrorText (str_or_default (res_error result) ''Error''))]\<rparr>"

definition push_message :: "GrokMessage \<Rightarrow> GrokAgent \<Rightarrow> 'w sys \<Rightarrow> GrokAgent \<times> 'w sys" where
  "push_message m st s = (st\<lparr>messages := messages st @ [m]\<rparr>, record_event (PushMessage m) s)"

definition push_entry :: "ChatEntry \<Rightarrow> GrokAgent \<Rightarrow> GrokAgent" where
  "push_entry entry st = st\<lparr>chatHistory := chatHistory st @ [entry]\<rparr>"

subsection \<open>Tool Dispatcher\<close>

text \<open>
  Reading a property: null has none and the read throws; a parsed object yields the value
  or undefined; any other parsed value has none of the properties the dispatcher reads.
\<close>

definition get_prop :: "jsv \<Rightarrow> string \<Rightarrow> jsv" where
  "get_prop v k =
     (case v of
        JObj kvs \<Rightarrow> (case map_of kvs k of Some x \<Rightarrow> x | None \<Rightarrow> JUndefined)
      | _ \<Rightarrow> JUndefined)"

definition cannot_read :: "string \<Rightarrow> string \<Rightarrow> thrown" where
  "cannot_read what k =
     js_Error ''TypeError''
       (''Cannot read properties of '' @ what @ '' (reading '' @ [CHR 0x27] @ k @ [CHR 0x27] @ '')'')"

definition reading ::
  "jsv \<Rightarrow> string \<Rightarrow> ('w sys \<Rightarrow> (thrown + 'a) \<times> 'w sys) \<Rightarrow> 'w sys \<Rightarrow> (thrown + 'a) \<times> 'w sys" where
  "reading args k f s =
     (if args = JNull then (Inl (cannot_read ''null'' k), s)
      else if args = JUndefined then (Inl (cannot_read ''undefined'' k), s)
      else f s)"

definition to_number :: "'w env \<Rightarrow> jsv \<Rightarrow> real option" where
  "to_number env v =
     (case v of
        JNum x \<Rightarrow> Some x
      | JBool b \<Rightarrow> Some (if b then 1 else 0)
      | JNull \<Rightarrow> Some 0
      | JUndefined \<Rightarrow> None
      | JNaN \<Rightarrow> None
      | _ \<Rightarrow> StringToNumber env v)"

definition Math_min :: "'w env \<Rightarrow> jsv \<Rightarrow> real \<Rightarrow> jsv" where
  "Math_min env v m = (case to_number env v of None \<Rightarrow> JNaN | Some x \<Rightarrow> JNum (min x m))"

definition call_collaborator ::
  "'w env \<Rightarrow> string \<Rightarrow> jsv list \<Rightarrow> 'w sys \<Rightarrow> (thrown + ToolResult) \<times> 'w sys" where
  "call_collaborator env name args s =
     (let (r, w) = collaborator env name args (world s) in (r, s\<lparr>world := w\<rparr>))"

definition syncCurrentDirectory :: "'w env \<Rightarrow> 'w sys \<Rightarrow> 'w sys" where
  "syncCurrentDirectory env s = s\<lparr>world := syncDirectory env (world s)\<rparr>"

definition try_catch ::
  "('e + 'a) \<times> 's \<Rightarrow> ('e \<Rightarrow> 's \<Rightarrow> ('e + 'a) \<times> 's) \<Rightarrow> ('e + 'a) \<times> 's" where
  "try_catch r handler = (case r of (Inl e, s) \<Rightarrow> handler e s | (Inr x, s) \<Rightarrow> (Inr x, s))"

text \<open>The text of \<^verbatim>\<open>${error.message}\<close> and of \<^verbatim>\<open>${name}\<close> for a name that may be undefined.\<close>

definition message_text :: "thrown \<Rightarrow> string" where
  "message_text e = (case err_message e of Some m \<Rightarrow> m | None \<Rightarrow> ''undefined'')"

definition name_text :: "string option \<Rightarrow> string" where
  "name_text n = (case n of Some x \<Rightarrow> x | None \<Rightarrow> ''undefined'')"

definition join_lines :: "string list \<Rightarrow> string" where
  "join_lines xs = (case xs of [] \<Rightarrow> [] | x # rest \<Rightarrow> foldl (\<lambda>a b. a @ [CHR 0x0A] @ b) x rest)"

definition mcp_item_text :: "mcp_item \<Rightarrow> string" where
  "mcp_item_text item =
     (case item of
        TextItem t \<Rightarrow> t
      | ResourceItem uri \<Rightarrow> ''Resource: '' @ str_or_default uri ''Unknown''
      | OtherItem str \<Rightarrow> str)"

definition mcp_first_text :: "mcp_item list \<Rightarrow> string option" where
  "mcp_first_text items = (case items of TextItem t # rest \<Rightarrow> Some t | _ \<Rightarrow> None)"

definition executeMCPTool_try ::
  "'w env \<Rightarrow> GrokToolCall \<Rightarrow> 'w sys \<Rightarrow> (thrown + ToolResult) \<times> 'w sys" where
  "executeMCPTool_try env toolCall s =
     (case JSON_parse env (tc_arguments toolCall) of
        Inl e \<Rightarrow> (Inl e, s)
      | Inr args \<Rightarrow>
          (let (r, w) = mcp_callTool env (tc_name toolCall) args (world s);
               s1 = s\<lparr>world := w\<rparr>
           in case r of
                Inl e \<Rightarrow> (Inl e, s1)
              | Inr result \<Rightarrow>
                  if isError result then
                    (Inr \<lparr>res_success = False, res_output = None,
                          res_error = Some (str_or_default (mcp_first_text (mcp_content result))
                                              ''MCP tool error'')\<rparr>, s1)
                  else
                    (Inr \<lparr>res_success = True,
                          res_output = Some (str_or_default
                             (Some (join_lines (map mcp_item_text (mcp_content result)))) ''Success''),
                          res_error = None\<rparr>, s1)))"

definition executeMCPTool ::
  "'w env \<Rightarrow> GrokToolCall \<Rightarrow> 'w sys \<Rightarrow> (thrown + ToolResult) \<times> 'w sys" where
  "executeMCPTool env toolCall s =
     try_catch (executeMCPTool_try env toolCall s)
       (\<lambda>error s'. (Inr \<lparr>res_success = False, res_output = None,
           res_error = Some (''MCP tool execution error: '' @ message_text error)\<rparr>, s'))"

text \<open>
  The body of the \<^verbatim>\<open>try\<close> block of \<^verbatim>\<open>executeTool\<close>. A collaborator is called by the name
  of its method with the list of its arguments; an options object is passed as an object.
\<close>

definition executeTool_try ::
  "'w env \<Rightarrow> bool \<Rightarrow> GrokToolCall \<Rightarrow> 'w sys \<Rightarrow> (thrown + ToolResult) \<times> 'w sys" where
  "executeTool_try env morph toolCall s =
     (case JSON_parse env (tc_arguments toolCall) of
        Inl e \<Rightarrow> (Inl e, s)
      | Inr args \<Rightarrow>
          (let name = tc_name toolCall in
           if name = Some ''view_file'' then
             reading args ''start_line''
               (call_collaborator env ''textEditor.view''
                  [get_prop args ''path'',
                   (if truthy (get_prop args ''start_line'') \<and> truthy (get_prop args ''end_line'')
                    then JArr [get_prop args ''start_line'', get_prop args ''end_line''] else JUndefined),
                   get_prop args ''offset'', get_prop args ''limit'']) s
           else if name = Some ''write_file'' then
             reading args ''path''
               (call_collaborator env ''textEditor.write'' [get_prop args ''path'', get_prop args ''content'']) s
           else if name = Some ''create_file'' then
             reading args ''path''
               (call_collaborator env ''textEditor.write'' [get_prop args ''path'', get_prop args ''content'']) s
           else if name = Some ''str_replace_editor'' then
             reading args ''path''
               (call_collaborator env ''textEditor.strReplace''
                  [get_prop args ''path'', get_prop args ''old_str'', get_prop args ''new_str'',
                   get_prop args ''replace_all'']) s
           else if name = Some ''edit_file'' then
             (if \<not> morph then
                (Inr \<lparr>res_success = False, res_output = None,
                      res_error = Some ''Morph Fast Apply not available. Please set MORPH_API_KEY environment variable to use this feature.''\<rparr>, s)
              else
                reading args ''target_file''
                  (call_collaborator env ''morphEditor.editFile''
                     [get_prop args ''target_file'', get_prop args ''instructions'', get_prop args ''code_edit'']) s)
           else if name = Some ''bash'' then
             reading args ''timeout''
               (\<lambda>s. let timeout = (if truthy (get_prop args ''timeout'')
                                    then Math_min env (get_prop args ''timeout'') 600000 else JUndefined)
                     in case call_collaborator env ''bash.execute'' [get_prop args ''command'', timeout] s of
                          (Inl e, s1) \<Rightarrow> (Inl e, s1)
                        | (Inr result, s1) \<Rightarrow> (Inr result, syncCurrentDirectory env s1)) s
           else if name = Some ''glob'' then
             reading args ''pattern''
               (call_collaborator env ''globTool.execute'' [get_prop args ''pattern'', get_prop args ''path'']) s
           else if name = Some ''grep'' then
             reading args ''pattern''
               (call_collaborator env ''grepTool.execute''
                  [JObj [(''pattern'', get_prop args ''pattern''), (''path'', get_prop args ''path''),
                         (''outputMode'', get_prop args ''output_mode''), (''glob'', get_prop args ''glob''),
                         (''type'', get_prop args ''type''),
                         (''caseSensitive'', get_prop args ''case_sensitive''),
                         (''contextLines'', get_prop args ''context_lines'')]]) s
           else if name = Some ''create_todo_list'' then
             reading args ''todos''
               (call_collaborator env ''todoTool.createTodoList'' [get_prop args ''todos'']) s
           else if name = Some ''update_todo_list'' then
             reading args ''updates''
               (call_collaborator env ''todoTool.updateTodoList'' [get_prop args ''updates'']) s
           else if name = Some ''search'' then
             reading args ''query''
               (call_collaborator env ''search.search''
                  [get_prop args ''query'',
                   JObj [(''searchType'', get_prop args ''search_type''),
                         (''includePattern'', get_prop args ''include_pattern''),
                         (''excludePattern'', get_prop args ''exclude_pattern''),
                         (''caseSensitive'', get_prop args ''case_sensitive''),
                         (''wholeWord'', get_prop args ''whole_word''),
                         (''regex'', get_prop args ''regex''),
                         (''maxResults'', get_prop args ''max_results''),
                         (''fileTypes'', get_prop args ''file_types''),
                         (''includeHidden'', get_prop args ''include_hidden'')]]) s
           else
             (case name of
                None \<Rightarrow> (Inl (cannot_read ''undefined'' ''startsWith''), s)
              | Some n \<Rightarrow>
                  if startsWith n ''mcp__'' then executeMCPTool env toolCall s
                  else (Inr \<lparr>res_success = False, res_output = None,
                             res_error = Some (''Unknown tool: '' @ n)\<rparr>, s))))"

definition executeTool ::
  "'w env \<Rightarrow> bool \<Rightarrow> GrokToolCall \<Rightarrow> 'w sys \<Rightarrow> (thrown + ToolResult) \<times> 'w sys" where
  "executeTool env morph toolCall s =
     try_catch (executeTool_try env morph toolCall (record_event (ExecuteTool toolCall) s))
       (\<lambda>error s'.
          (Inr \<lparr>res_success = False, res_output = None,
                res_error = Some (''Tool execution error: '' @ message_text error)\<rparr>,
           logger_error (''executeTool('' @ name_text (tc_name toolCall) @ '') failed'')
             (Some error) s'))"


subsection \<open>Buffered mode\<close>

definition tool_result_entry :: "nat \<Rightarrow> GrokToolCall \<Rightarrow> ToolResult \<Rightarrow> ChatEntry" where
  "tool_result_entry now toolCall result =
     \<lparr>entry_type = tool_result,
      entry_content = (if res_success result
                       then str_or_default (res_output result) ''Success''
                       else str_or_default (res_error result) ''Error occurred''),
      entry_timestamp = now,
      entry_toolCalls = None,
      entry_toolCall = Some toolCall,
      entry_toolResult = Some result,
      entry_isStreaming = None\<rparr>"

definition max_rounds_text :: string where
  "max_rounds_text =
     [CHR 0x0A, CHR 0x0A] @ ''Maximum tool execution rounds reached. Stopping to prevent infinite loops.''"

definition notice_entry :: "nat \<Rightarrow> string \<Rightarrow> ChatEntry" where
  "notice_entry now text =
     \<lparr>entry_type = assistant, entry_content = text, entry_timestamp = now,
      entry_toolCalls = None, entry_toolCall = None, entry_toolResult = None,
      entry_isStreaming = None\<rparr>"

text \<open>The \<^verbatim>\<open>for\<close> loop over the tool calls of one reply.\<close>

fun run_tools ::
  "'w env \<Rightarrow> GrokToolCall list \<Rightarrow> GrokAgent \<Rightarrow> 'w sys \<Rightarrow> (exn + unit) \<times> GrokAgent \<times> 'w sys" where
  "run_tools env [] st s = (Inr (), st, s)"
| "run_tools env (toolCall # rest) st s =
     (case executeTool env (morphEditor st) toolCall s of
        (Inl e, s1) \<Rightarrow> (Inl (Raw e), st, s1)
      | (Inr result, s1) \<Rightarrow>
          (let st1 = push_entry (tool_result_entry (Date_now env (world s1)) toolCall result) st;
               (st2, s2) = push_message (buildToolResultMessage toolCall result) st1 s1
           in run_tools env rest st2 s2))"

text \<open>The loop over the tool calls does not write the round limit.\<close>

lemma run_tools_maxToolRounds:
  "run_tools env tcs st s = (r, st', s') \<Longrightarrow> maxToolRounds st' = maxToolRounds st"
proof (induction tcs arbitrary: st s)
  case Nil
  then show ?case by simp
next
  case (Cons tc tcs)
  obtain res s1 where ex: "executeTool env (morphEditor st) tc s = (res, s1)"
    by (cases "executeTool env (morphEditor st) tc s") simp
  show ?case
  proof (cases res)
    case (Inl e)
    with Cons.prems ex show ?thesis by simp
  next
    case (Inr result)
    with Cons.prems ex have "run_tools env tcs
        (fst (push_message (buildToolResultMessage tc result)
           (push_entry (tool_result_entry (Date_now env (world s1)) tc result) st) s1))
        (snd (push_message (buildToolResultMessage tc result)
           (push_entry (tool_result_entry (Date_now env (world s1)) tc result) st) s1)) = (r, st', s')"
      by (simp add: Let_def split: prod.splits)
    from Cons.IH [OF this] show ?thesis
      by (simp add: push_message_def push_entry_def)
  qed
qed

definition finish_rounds ::
  "'w env \<Rightarrow> int \<Rightarrow> GrokResponse option \<Rightarrow> GrokAgent \<Rightarrow> 'w sys \<Rightarrow>
   (exn + GrokResponse option) \<times> GrokAgent \<times> 'w sys" where
  "finish_rounds env toolRounds currentResponse st s =
     (if toolRounds \<ge> maxToolRounds st
      then (Inr currentResponse,
            push_entry (notice_entry (Date_now env (world s)) max_rounds_text) st, s)
      else (Inr currentResponse, st, s))"

definition assistant_entry :: "nat \<Rightarrow> response_message \<Rightarrow> ChatEntry" where
  "assistant_entry now responseMessage =
     \<lparr>entry_type = assistant,
      entry_content = str_or_default (rm_content responseMessage) '''',
      entry_timestamp = now,
      entry_toolCalls = rm_tool_calls responseMessage,
      entry_toolCall = None, entry_toolResult = None, entry_isStreaming = None\<rparr>"

text \<open>
  The \<^verbatim>\<open>while\<close> loop of \<^verbatim>\<open>processUserMessage\<close> followed by the code after it. The token
  counts the source computes on the way are never used and are left out.
\<close>

function buffered_rounds ::
  "'w env \<Rightarrow> string \<Rightarrow> GrokTool list \<Rightarrow> int \<Rightarrow> GrokResponse option \<Rightarrow> GrokAgent \<Rightarrow> 'w sys \<Rightarrow>
   (exn + GrokResponse option) \<times> GrokAgent \<times> 'w sys" where
  "buffered_rounds env message tools toolRounds currentResponse st s =
     (if toolRounds < maxToolRounds st then
        (case chat env (grokClient st) (messages st) (Some tools) None (getSearchOptions st message) s of
           (Inl e, s1) \<Rightarrow> (Inl e, st, s1)
         | (Inr response, s1) \<Rightarrow>
             (case choices response of
                [] \<Rightarrow> (Inl (Raw (cannot_read ''undefined'' ''message'')), st, s1)
              | ch # others \<Rightarrow>
                  (let responseMessage = choice_message ch in
                   case buildAssistantMessage env responseMessage of
                     Inl e \<Rightarrow> (Inl (Raw e), st, s1)
                   | Inr m \<Rightarrow>
                       (let (st1, s2) = push_message m st s1;
                            st2 = push_entry (assistant_entry (Date_now env (world s2)) responseMessage) st1
                        in case rm_tool_calls responseMessage of
                             None \<Rightarrow> finish_rounds env toolRounds (Some response) st2 s2
                           | Some tcs \<Rightarrow>
                               if tcs = [] then finish_rounds env toolRounds (Some response) st2 s2
                               else
                                 (case run_tools env tcs st2 s2 of
                                    (Inl e, st3, s3) \<Rightarrow> (Inl e, st3, s3)
                                  | (Inr u, st3, s3) \<Rightarrow>
                                      buffered_rounds env message tools (toolRounds + 1)
                                        (Some response) st3 s3)))))
      else finish_rounds env toolRounds currentResponse st s)"
  by pat_completeness auto

termination
  apply (relation "measure (\<lambda>(env, message, tools, toolRounds, cr, st, s).
                  nat (maxToolRounds st - toolRounds))")
   apply simp
  apply (auto simp add: push_message_def push_entry_def dest!: run_tools_maxToolRounds [OF sym])
  done

declare buffered_rounds.simps [simp del]

definition processUserMessage ::
  "'w env \<Rightarrow> string \<Rightarrow> GrokAgent \<Rightarrow> 'w sys \<Rightarrow> (exn + GrokResponse option) \<times> GrokAgent \<times> 'w sys" where
  "processUserMessage env message st s =
     (let (tools, w) = getAllGrokTools env (world s);
          (st1, s1) = push_message \<lparr>msg_role = ''user'', msg_content = Text message\<rparr> st (s\<lparr>world := w\<rparr>)
      in buffered_rounds env message tools 0 None st1 s1)"

subsection \<open>Streaming mode\<close>

definition cancel_notice :: string where
  "cancel_notice = [CHR 0x0A, CHR 0x0A] @ ''[Operation cancelled by user]''"

text \<open>
  A \<^verbatim>\<open>yield\<close> hands the event to the consumer, which runs before the generator resumes.
  The abort signal is set from outside (\<^verbatim>\<open>abortCurrentOperation\<close>, called by the host while
  the generator is suspended), so its value is read from the world; while the generator
  runs, \<^verbatim>\<open>this.abortController\<close> is the controller created at its start.
\<close>

definition emit :: "'w env \<Rightarrow> StreamingChunk \<Rightarrow> 'w sys \<Rightarrow> 'w sys" where
  "emit env chunk s = (record_event (Yield chunk) s)\<lparr>world := consumer env chunk (world s)\<rparr>"

definition read_aborted :: "'w env \<Rightarrow> 'w sys \<Rightarrow> bool \<times> 'w sys" where
  "read_aborted env s =
     (signal_aborted env (world s), record_event (AbortRead (signal_aborted env (world s))) s)"

text \<open>The three statements taken when the signal is found set: notice, \<open>done\<close>, return.\<close>

definition cancelled :: "'w env \<Rightarrow> 'w sys \<Rightarrow> 'w sys" where
  "cancelled env s = emit env Done (emit env (Content cancel_notice) s)"
















section \<open>getChatHistory and the identity of arrays\<close>

text \<open>
  \<^verbatim>\<open>getChatHistory\<close> returns \<^verbatim>\<open>[...this.chatHistory]\<close>. What distinguishes the copy from
  the array itself is identity, so arrays live in a store here: a reference names an array,
  the object holds the reference of its chat history, and a caller mutates an array through
  a reference. The elements are whatever the arrays hold (the entries themselves are shared
  between the copy and the original).
\<close>

type_synonym ref = nat

record 'a array_store =
  cells :: "ref \<Rightarrow> 'a list option"
  fresh :: ref

record agent_object =
  chatHistory_ref :: ref

definition new_array :: "'a list \<Rightarrow> 'a array_store \<Rightarrow> ref \<times> 'a array_store" where
  "new_array xs h = (fresh h, h\<lparr>cells := (cells h)(fresh h \<mapsto> xs), fresh := Suc (fresh h)\<rparr>)"

definition getChatHistory :: "agent_object \<Rightarrow> 'a array_store \<Rightarrow> ref \<times> 'a array_store" where
  "getChatHistory this h =
     new_array (case cells h (chatHistory_ref this) of Some xs \<Rightarrow> xs | None \<Rightarrow> []) h"

text \<open>
  Any in-place change of the array behind a reference: \<^verbatim>\<open>push\<close>, \<^verbatim>\<open>pop\<close>, \<^verbatim>\<open>splice\<close>,
  \<^verbatim>\<open>shift\<close>, \<^verbatim>\<open>length = 0\<close> and the like, given by what it does to the elements.
\<close>

definition mutate_array :: "ref \<Rightarrow> ('a list \<Rightarrow> 'a list) \<Rightarrow> 'a array_store \<Rightarrow> 'a array_store" where
  "mutate_array r f h = h\<lparr>cells := (cells h)(r := map_option f (cells h r))\<rparr>"

text \<open>A store is well formed for an object when its chat history is an allocated array.\<close>

definition allocated :: "agent_object \<Rightarrow> 'a array_store \<Rightarrow> bool" where
  "allocated this h \<longleftrightarrow> chatHistory_ref this < fresh h \<and> cells h (chatHistory_ref this) \<noteq> None"

definition example_store :: "nat array_store" where
  "example_store = \<lparr>cells = (\<lambda>r. if r = 0 then Some [10, 20] else None), fresh = 1\<rparr>"

section \<open>Observations on traces and example surroundings\<close>

text \<open>A raw error as an HTTP client throws it: an Error object with a status.\<close>

definition http_error :: "int \<Rightarrow> string \<Rightarrow> thrown" where
  "http_error s m = \<lparr>err_name = Some ''Error'', err_code = None, err_message = Some m,
     err_status = Some s, err_statusCode = None, err_response_status = None,
     err_String = ''Error: '' @ m\<rparr>"

text \<open>The transport events of a trace: the requests issued and the back-off sleeps.\<close>

fun is_transport :: "trace_event \<Rightarrow> bool" where
  "is_transport (GenerateText r) = True"
| "is_transport (StreamText r) = True"
| "is_transport (Sleep d) = True"
| "is_transport ev = False"

definition transport_events :: "trace_event list \<Rightarrow> trace_event list" where
  "transport_events t = filter is_transport t"

definition delay_of :: "'w env \<Rightarrow> nat \<Rightarrow> 'w \<Rightarrow> real" where
  "delay_of env attempt w = BASE_DELAY_MS * 2 ^ attempt + fst (Math_random env w) * 500"

text \<open>
  The delays of consecutive retries, starting at a given attempt index: each is the base
  delay doubled per attempt plus a jitter below 500 ms.
\<close>

fun delays_ok :: "nat \<Rightarrow> real list \<Rightarrow> bool" where
  "delays_ok attempt [] = True"
| "delays_ok attempt (d # ds) =
     (BASE_DELAY_MS * 2 ^ attempt \<le> d \<and> d < BASE_DELAY_MS * 2 ^ attempt + 500
      \<and> delays_ok (Suc attempt) ds)"

definition attempts_with_sleeps :: "trace_event \<Rightarrow> real list \<Rightarrow> trace_event list" where
  "attempts_with_sleeps call ds = concat (map (\<lambda>d. [call, Sleep d]) ds) @ [call]"

fun is_request_line :: "trace_event \<Rightarrow> bool" where
  "is_request_line (AppendLine (API_REQUEST m ep b)) = True"
| "is_request_line ev = False"

fun is_attempt :: "trace_event \<Rightarrow> bool" where
  "is_attempt (GenerateText r) = True"
| "is_attempt (StreamText r) = True"
| "is_attempt ev = False"

definition failure_lines :: "string \<Rightarrow> string \<Rightarrow> thrown \<Rightarrow> trace_event list" where
  "failure_lines label failed e =
     [AppendLine (API_ERROR ''POST'' label (status_or_code (classifyError e)) (str_or (err_message e) None)),
      AppendLine (ERROR failed (Some e))]"

text \<open>
  Surroundings for the worked examples. The world is a counter of SDK calls. The parser
  stands for \<^verbatim>\<open>JSON.parse\<close> on the argument texts the examples use: it accepts \<^verbatim>\<open>{}\<close>
  and rejects the truncated text \<^verbatim>\<open>{\<close>, as \<^verbatim>\<open>JSON.parse\<close> does; the wording of the
  message of the \<^verbatim>\<open>SyntaxError\<close> is the engine's and plays no role.
\<close>

definition example_parse :: "string \<Rightarrow> thrown + jsv" where
  "example_parse t =
     (if t = ''{}'' then Inr (JObj [])
      else Inl (js_Error ''SyntaxError'' ''Unexpected end of JSON input''))"

definition example_env :: "(nat \<Rightarrow> thrown + sdk_response) \<Rightarrow> nat env" where
  "example_env backend =
     \<lparr>JSON_parse = example_parse,
      JSON_stringify = (\<lambda>v. ''{}''),
      StringToNumber = (\<lambda>v. None),
      Math_random = (\<lambda>w. (1 / 4, w)),
      Date_now = (\<lambda>w. w),
      GROK_DEBUG = (\<lambda>w. True),
      setTimeout = (\<lambda>d w. w),
      generateText = (\<lambda>req w. (backend w, Suc w)),
      streamText = (\<lambda>req w. (([], None), Suc w)),
      getAllGrokTools = (\<lambda>w. ([], w)),
      countMessageTokens = (\<lambda>ms. int (length ms)),
      collaborator = (\<lambda>name args w.
         (Inr \<lparr>res_success = True, res_output = Some name, res_error = None\<rparr>, w)),
      syncDirectory = (\<lambda>w. w),
      mcp_callTool = (\<lambda>name args w. (Inr \<lparr>isError = False, mcp_content = []\<rparr>, w)),
      signal_aborted = (\<lambda>w. False),
      consumer = (\<lambda>ev w. w)\<rparr>"

definition example_client :: GrokClient where
  "example_client = \<lparr>currentModel = ''grok-code-fast-1'', defaultMaxTokens = 16384, baseURL = None\<rparr>"

definition start :: "nat sys" where
  "start = \<lparr>world = 0, trace = []\<rparr>"

definition text_response :: "string \<Rightarrow> sdk_response" where
  "text_response t = \<lparr>sdk_text = t, sdk_finishReason = Some ''stop'', sdk_toolCalls = None\<rparr>"

definition flaky_backend :: "nat \<Rightarrow> thrown + sdk_response" where
  "flaky_backend w = (if w = 0 then Inl (http_error 503 ''Service Unavailable'') else Inr (text_response ''hi''))"


text \<open>A backend that is down (every call fails with a 503), and one that fails once.\<close>

definition down_backend :: "nat \<Rightarrow> thrown + sdk_response" where
  "down_backend w = Inl (http_error 503 ''Service Unavailable'')"

definition down_env :: "nat env" where
  "down_env = (example_env down_backend)
     \<lparr>streamText := (\<lambda>req w.
        (([TextDelta (Some ''par'')], Some (http_error 503 ''Service Unavailable'')), Suc w))\<rparr>"

definition flaky_env :: "nat env" where
  "flaky_env = (example_env flaky_backend)
     \<lparr>streamText := (\<lambda>req w.
        (([TextDelta (Some ''par'')],
          if w = 0 then Some (http_error 503 ''Service Unavailable'') else None), Suc w))\<rparr>"

text \<open>A consumer that collects every event of the stream and never leaves its loop.\<close>

definition drain :: "delta list \<Rightarrow> delta \<Rightarrow> nat sys \<Rightarrow> delta list step \<times> nat sys" where
  "drain acc d s = (Next (acc @ [d]), s)"



definition tool_call :: "string \<Rightarrow> string \<Rightarrow> string \<Rightarrow> GrokToolCall" where
  "tool_call i n a = \<lparr>tc_id = i, tc_type = ''function'', tc_name = Some n, tc_arguments = a\<rparr>"


text \<open>
  What the history may hold: a user message, an assistant message built from a complete
  reply, or a tool-result message.
\<close>

definition user_message :: "string \<Rightarrow> GrokMessage" where
  "user_message text = \<lparr>msg_role = ''user'', msg_content = Text text\<rparr>"

definition stored_ok :: "'w env \<Rightarrow> GrokMessage \<Rightarrow> bool" where
  "stored_ok env m \<longleftrightarrow>
     (\<exists>text. m = user_message text)
     \<or> (\<exists>rm. buildAssistantMessage env rm = Inr m)
     \<or> (\<exists>tc r. m = buildToolResultMessage tc r)"

text \<open>The messages appended during a stretch of the trace, and the events of the transport.\<close>

fun push_of :: "trace_event \<Rightarrow> GrokMessage list" where
  "push_of (PushMessage m) = [m]"
| "push_of ev = []"

definition pushes :: "trace_event list \<Rightarrow> GrokMessage list" where
  "pushes t = concat (map push_of t)"

fun quiet :: "trace_event \<Rightarrow> bool" where
  "quiet (AppendLine l) = True"
| "quiet (GenerateText r) = True"
| "quiet (StreamText r) = True"
| "quiet (Sleep d) = True"
| "quiet ev = False"

definition is_log :: "trace_event \<Rightarrow> bool" where
  "is_log ev = (case ev of AppendLine l \<Rightarrow> True | _ \<Rightarrow> False)"

text \<open>An agent at the start of a session, and replies that request tools.\<close>

definition example_agent :: "int \<Rightarrow> GrokAgent" where
  "example_agent limit =
     \<lparr>grokClient = example_client, morphEditor = False, chatHistory = [],
      messages = [\<lparr>msg_role = ''system'', msg_content = Text ''You are Grok CLI.''\<rparr>],
      abortController = False, maxToolRounds = limit\<rparr>"

definition sdk_call :: "string \<Rightarrow> string \<Rightarrow> jsv \<Rightarrow> sdk_toolcall" where
  "sdk_call i n inp =
     \<lparr>sdk_toolCallId = Some i, sdk_id = None, sdk_toolName = Some n, sdk_name = None, sdk_input = inp\<rparr>"

definition tool_calls_response :: "sdk_toolcall list \<Rightarrow> sdk_response" where
  "tool_calls_response tcs =
     \<lparr>sdk_text = [], sdk_finishReason = Some ''tool-calls'', sdk_toolCalls = Some tcs\<rparr>"

definition malformed_backend :: "nat \<Rightarrow> thrown + sdk_response" where
  "malformed_backend w =
     Inr (tool_calls_response [sdk_call ''call_A'' ''bash'' (JStr ''{''), sdk_call ''call_B'' ''glob'' (JObj [])])"

text \<open>
  Events of a run that is still going on: \<open>steady\<close> events are all but a positive read of
  the abort signal and the \<open>done\<close> event; \<open>calm\<close> events are, besides, neither a tool
  dispatch nor an append to the history. A run ends with \<open>done\<close>, or with the tail that
  follows a positive read of the signal.
\<close>

fun calm :: "trace_event \<Rightarrow> bool" where
  "calm (AbortRead b) = (\<not> b)"
| "calm (Yield c) = (c \<noteq> Done)"
| "calm (PushMessage m) = False"
| "calm (ExecuteTool tc) = False"
| "calm ev = True"

fun steady :: "trace_event \<Rightarrow> bool" where
  "steady (AbortRead b) = (\<not> b)"
| "steady (Yield c) = (c \<noteq> Done)"
| "steady ev = True"

definition cancel_tail :: "trace_event list" where
  "cancel_tail = [AbortRead True, Yield (Content cancel_notice), Yield Done]"

definition ends_cancelled :: "(trace_event \<Rightarrow> bool) \<Rightarrow> trace_event list \<Rightarrow> bool" where
  "ends_cancelled P t \<longleftrightarrow> (\<exists>pre. t = pre @ cancel_tail \<and> list_all P pre)"




section \<open>Properties of the Error Classifier\<close>

lemma classifyError_timeout:
  "is_timeout e \<Longrightarrow> info_code (classifyError e) = ''timeout'' \<and> info_retryable (classifyError e)"
  by (simp add: classifyError_def)

lemma classifyError_network:
  "\<not> is_timeout e \<Longrightarrow> is_network e \<Longrightarrow>
   info_code (classifyError e) = ''network'' \<and> info_retryable (classifyError e)"
  by (simp add: classifyError_def)

lemma classifyError_status_plain:
  assumes "\<not> is_timeout e" and "\<not> is_network e" and "error_status e = Some s"
  shows "s = 400 \<Longrightarrow> info_code (classifyError e) = ''bad_request'' \<and> \<not> info_retryable (classifyError e)"
    and "s = 401 \<or> s = 403 \<Longrightarrow> info_code (classifyError e) = ''auth'' \<and> \<not> info_retryable (classifyError e)"
    and "s = 404 \<Longrightarrow> info_code (classifyError e) = ''not_found'' \<and> \<not> info_retryable (classifyError e)"
    and "s = 429 \<Longrightarrow> info_code (classifyError e) = ''rate_limit'' \<and> info_retryable (classifyError e)"
    and "500 \<le> s \<Longrightarrow> info_code (classifyError e) = ''server'' \<and> info_retryable (classifyError e)"
  using assms by (auto simp add: classifyError_def)

text \<open>
  Claim C7, as amended. A raw error whose status is 429 or at least 500 is always classified
  retryable. The codes \<open>rate_limit\<close> and \<open>server\<close>, and the verdict
  \<open>retryable = False\<close> with the codes \<open>bad_request\<close>, \<open>auth\<close>, \<open>not_found\<close> for the
  statuses 400, 401, 403, 404, are returned when the error matches neither the timeout nor
  the network signature; those two signatures are tested first and win over the status.
\<close>

theorem classifyError_by_status:
  assumes "error_status e = Some s"
  shows "((s = 429 \<or> (500 \<le> s \<and> s < 600)) \<longrightarrow> info_retryable (classifyError e))
     \<and> (\<not> is_timeout e \<and> \<not> is_network e \<longrightarrow>
          (s = 429 \<longrightarrow> info_code (classifyError e) = ''rate_limit'')
        \<and> (500 \<le> s \<and> s < 600 \<longrightarrow> info_code (classifyError e) = ''server'')
        \<and> (s = 400 \<longrightarrow> info_code (classifyError e) = ''bad_request'' \<and> \<not> info_retryable (classifyError e))
        \<and> (s = 401 \<or> s = 403 \<longrightarrow> info_code (classifyError e) = ''auth'' \<and> \<not> info_retryable (classifyError e))
        \<and> (s = 404 \<longrightarrow> info_code (classifyError e) = ''not_found'' \<and> \<not> info_retryable (classifyError e)))"
proof -
  have retry: "s = 429 \<or> 500 \<le> s \<Longrightarrow> info_retryable (classifyError e)"
  proof (cases "is_timeout e \<or> is_network e")
    case True
    then show ?thesis using classifyError_timeout classifyError_network by blast
  next
    case False
    assume "s = 429 \<or> 500 \<le> s"
    with False assms show ?thesis using classifyError_status_plain(4,5) by blast
  qed
  show ?thesis
    using retry classifyError_status_plain [OF _ _ assms] by blast
qed

theorem classifyError_by_status_witness:
  "error_status (http_error 429 ''Too Many Requests'') = Some 429
   \<and> info_retryable (classifyError (http_error 429 ''Too Many Requests''))
   \<and> info_code (classifyError (http_error 429 ''Too Many Requests'')) = ''rate_limit''
   \<and> error_status (http_error 401 ''Unauthorized'') = Some 401
   \<and> \<not> is_timeout (http_error 401 ''Unauthorized'') \<and> \<not> is_network (http_error 401 ''Unauthorized'')
   \<and> \<not> info_retryable (classifyError (http_error 401 ''Unauthorized''))
   \<and> info_code (classifyError (http_error 401 ''Unauthorized'')) = ''auth''"
proof -
  have s1: "error_status (http_error 429 ''Too Many Requests'') = Some 429"
    and s2: "error_status (http_error 401 ''Unauthorized'') = Some 401"
    by (simp_all add: http_error_def error_status_def nullish_def)
  have t1: "\<not> is_timeout (http_error 429 ''Too Many Requests'')"
    and n1: "\<not> is_network (http_error 429 ''Too Many Requests'')"
    and t2: "\<not> is_timeout (http_error 401 ''Unauthorized'')"
    and n2: "\<not> is_network (http_error 401 ''Unauthorized'')"
    by (simp_all add: http_error_def is_timeout_def is_network_def error_msg_def)
  show ?thesis
    using classifyError_by_status [OF s1] classifyError_by_status [OF s2] s1 s2 t1 n1 t2 n2
    by simp
qed

text \<open>
  The claim as first stated fails: a 504 whose message is the standard reason phrase
  matches the timeout signature, so its code is \<open>timeout\<close>, neither \<open>rate_limit\<close> nor
  \<open>server\<close>; and a 403 whose message mentions the network is classified \<open>network\<close> and
  retryable.
\<close>

theorem classifyError_status_counterexample:
  "error_status (http_error 504 ''Gateway Timeout'') = Some 504
   \<and> info_code (classifyError (http_error 504 ''Gateway Timeout'')) = ''timeout''
   \<and> error_status (http_error 403 ''Access from your network is blocked'') = Some 403
   \<and> info_retryable (classifyError (http_error 403 ''Access from your network is blocked'')) = True
   \<and> info_code (classifyError (http_error 403 ''Access from your network is blocked'')) = ''network''"
  by (simp add: http_error_def classifyError_def is_timeout_def is_network_def error_msg_def
      error_status_def nullish_def)

section \<open>Properties of the Model Transport\<close>

lemma trace_record_event [simp]: "trace (record_event ev s) = trace s @ [ev]"
  and world_record_event [simp]: "world (record_event ev s) = world s"
  by (simp_all add: record_event_def)

lemma log_failure_trace:
  "trace (log_failure label failed e info s) =
     trace s @ [AppendLine (API_ERROR ''POST'' label (status_or_code info) (str_or (err_message e) None)),
                AppendLine (ERROR failed (Some e))]"
  and log_failure_world: "world (log_failure label failed e info s) = world s"
  by (simp_all add: log_failure_def logger_error_def logApiError_def appendLine_def)

lemma backoff_trace:
  "trace (backoff env what attempt info s) =
     trace s @ (if GROK_DEBUG env (snd (Math_random env (world s)))
                then [AppendLine (INFO (retry_message what (delay_of env attempt (world s)) attempt info))]
                else [])
       @ [Sleep (delay_of env attempt (world s))]"
  by (simp add: backoff_def delay_of_def logger_info_def isDebug_def appendLine_def Let_def split: prod.splits)

lemma transport_backoff:
  "transport_events (trace (backoff env what attempt info s)) =
     transport_events (trace s) @ [Sleep (delay_of env attempt (world s))]"
  by (simp add: backoff_trace transport_events_def)

lemma transport_log_failure:
  "transport_events (trace (log_failure label failed e info s)) = transport_events (trace s)"
  by (simp add: log_failure_trace transport_events_def)

lemma chat_attempts_retry:
  assumes "attempt < MAX_RETRIES"
    and "generateText env (build_request c msgs tools model so) (world s) = (Inl e, w)"
    and "info_retryable (classifyError e)"
  shows "chat_attempts env c msgs tools model so attempt le s =
     chat_attempts env c msgs tools model so (Suc attempt) e
       (backoff env ''chat'' attempt (classifyError e)
          (log_failure (call_label c model ''/chat'') ''GrokClient.chat failed'' e (classifyError e)
             ((record_event (GenerateText (build_request c msgs tools model so)) s)\<lparr>world := w\<rparr>)))"
  using assms by (subst chat_attempts.simps) (simp add: Let_def)

lemma chat_attempts_raise:
  assumes "generateText env (build_request c msgs tools model so) (world s) = (Inl e, w)"
    and "attempt = MAX_RETRIES \<or> \<not> info_retryable (classifyError e)" "attempt \<le> MAX_RETRIES"
  shows "chat_attempts env c msgs tools model so attempt le s =
     (Inl (GrokApiError (classifyError e)),
        log_failure (call_label c model ''/chat'') ''GrokClient.chat failed'' e (classifyError e)
             ((record_event (GenerateText (build_request c msgs tools model so)) s)\<lparr>world := w\<rparr>))"
  using assms by (subst chat_attempts.simps) (auto simp add: Let_def)

lemma delay_of_bounds:
  assumes "0 \<le> fst (Math_random env w) \<and> fst (Math_random env w) < 1"
  shows "BASE_DELAY_MS * 2 ^ attempt \<le> delay_of env attempt w"
    and "delay_of env attempt w < BASE_DELAY_MS * 2 ^ attempt + 500"
  using assms by (simp_all add: delay_of_def)

lemma chat_attempts_always_fail:
  assumes fails: "\<And>req w. \<exists>e w'. generateText env req w = (Inl e, w') \<and> info_retryable (classifyError e)"
    and rnd: "\<And>w. 0 \<le> fst (Math_random env w) \<and> fst (Math_random env w) < 1"
    and le: "attempt \<le> MAX_RETRIES"
  shows "\<exists>e s' ds pre.
      chat_attempts env c msgs tools model so attempt lastError s = (Inl (GrokApiError (classifyError e)), s')
    \<and> trace s' = pre @ [GenerateText (build_request c msgs tools model so),
          AppendLine (API_ERROR ''POST'' (call_label c model ''/chat'')
             (status_or_code (classifyError e)) (str_or (err_message e) None)),
          AppendLine (ERROR ''GrokClient.chat failed'' (Some e))]
    \<and> transport_events (trace s') =
        transport_events (trace s) @ attempts_with_sleeps (GenerateText (build_request c msgs tools model so)) ds
    \<and> length ds = MAX_RETRIES - attempt \<and> delays_ok attempt ds"
  using le
proof (induction "MAX_RETRIES - attempt" arbitrary: attempt lastError s)
  case 0
  let ?req = "build_request c msgs tools model so"
  from fails obtain e w where gen: "generateText env ?req (world s) = (Inl e, w)"
    by blast
  from 0 have at: "attempt = MAX_RETRIES" by simp
  have res: "chat_attempts env c msgs tools model so attempt lastError s =
     (Inl (GrokApiError (classifyError e)),
        log_failure (call_label c model ''/chat'') ''GrokClient.chat failed'' e (classifyError e)
             ((record_event (GenerateText ?req) s)\<lparr>world := w\<rparr>))"
    by (rule chat_attempts_raise [OF gen]) (simp_all add: at)
  show ?case
    apply (rule exI [of _ e])
    apply (rule exI [of _ "log_failure (call_label c model ''/chat'') ''GrokClient.chat failed'' e (classifyError e)
             ((record_event (GenerateText ?req) s)\<lparr>world := w\<rparr>)"])
    apply (rule exI [of _ "[]"])
    apply (rule exI [of _ "trace s"])
    unfolding res
    using at by (simp add: log_failure_trace transport_events_def attempts_with_sleeps_def)
next
  case (Suc n)
  let ?req = "build_request c msgs tools model so"
  from fails obtain e w where gen: "generateText env ?req (world s) = (Inl e, w)"
    and retry: "info_retryable (classifyError e)"
    by blast
  from Suc have lt: "attempt < MAX_RETRIES" by simp
  let ?s2 = "log_failure (call_label c model ''/chat'') ''GrokClient.chat failed'' e (classifyError e)
             ((record_event (GenerateText ?req) s)\<lparr>world := w\<rparr>)"
  let ?s3 = "backoff env ''chat'' attempt (classifyError e) ?s2"
  have step: "chat_attempts env c msgs tools model so attempt lastError s =
     chat_attempts env c msgs tools model so (Suc attempt) e ?s3"
    using chat_attempts_retry [OF lt gen retry] .
  have n: "n = MAX_RETRIES - Suc attempt" and le': "Suc attempt \<le> MAX_RETRIES"
    using Suc by simp_all
  from Suc.hyps(1) [OF n le', of e ?s3] obtain e' s' ds pre where
    r: "chat_attempts env c msgs tools model so (Suc attempt) e ?s3 = (Inl (GrokApiError (classifyError e')), s')"
    and t: "trace s' = pre @ [GenerateText ?req,
          AppendLine (API_ERROR ''POST'' (call_label c model ''/chat'')
             (status_or_code (classifyError e')) (str_or (err_message e') None)),
          AppendLine (ERROR ''GrokClient.chat failed'' (Some e'))]"
    and tr: "transport_events (trace s') = transport_events (trace ?s3) @ attempts_with_sleeps (GenerateText ?req) ds"
    and len: "length ds = MAX_RETRIES - Suc attempt" and ok: "delays_ok (Suc attempt) ds"
    by blast
  have w2: "world ?s2 = w" by (simp add: log_failure_world)
  have tr3: "transport_events (trace ?s3) =
      transport_events (trace s) @ [GenerateText ?req, Sleep (delay_of env attempt w)]"
    by (simp add: transport_backoff transport_log_failure w2)
       (simp add: log_failure_trace transport_events_def)
  have tr': "transport_events (trace s') =
      transport_events (trace s) @ attempts_with_sleeps (GenerateText ?req) (delay_of env attempt w # ds)"
    by (simp add: tr tr3 attempts_with_sleeps_def)
  have len': "length (delay_of env attempt w # ds) = MAX_RETRIES - attempt"
    using lt len by simp
  have ok': "delays_ok attempt (delay_of env attempt w # ds)"
    using ok delay_of_bounds [OF rnd, of attempt w] by simp
  show ?case
    unfolding step r using t tr' len' ok' by blast
qed


lemma stream_chunks_drained:
  assumes body: "\<And>acc d s. \<exists>a s'. body acc d s = (Next a, s')
                   \<and> transport_events (trace s') = transport_events (trace s)"
  shows "\<exists>a s'. stream_chunks env body chunks acc s = (Next a, s')
           \<and> transport_events (trace s') = transport_events (trace s)"
proof (induction chunks arbitrary: acc s)
  case Nil
  show ?case by simp
next
  case (Cons chunk chunks)
  show ?case
  proof (cases "to_delta env chunk")
    case None
    with Cons show ?thesis by simp
  next
    case (Some d)
    from body obtain a s1 where b: "body acc d s = (Next a, s1)"
      and t: "transport_events (trace s1) = transport_events (trace s)"
      by blast
    from Cons [of a s1] t show ?thesis
      by (simp add: Some b)
  qed
qed

lemma chatStream_attempts_retry:
  assumes "attempt < MAX_RETRIES"
    and "streamText env (build_request c msgs tools model so) (world s) = ((chunks, Some e), w)"
    and "stream_chunks env body chunks acc
           ((record_event (StreamText (build_request c msgs tools model so)) s)\<lparr>world := w\<rparr>) = (Next a, s3)"
    and "info_retryable (classifyError e)"
  shows "chatStream_attempts env c msgs tools model so body attempt le acc s =
     chatStream_attempts env c msgs tools model so body (Suc attempt) e a
       (backoff env ''chatStream'' attempt (classifyError e)
          (log_failure (call_label c model ''/chat/stream'') ''GrokClient.chatStream failed'' e
             (classifyError e) s3))"
  using assms by (subst chatStream_attempts.simps) (simp add: Let_def)

lemma chatStream_attempts_raise:
  assumes "streamText env (build_request c msgs tools model so) (world s) = ((chunks, Some e), w)"
    and "stream_chunks env body chunks acc
           ((record_event (StreamText (build_request c msgs tools model so)) s)\<lparr>world := w\<rparr>) = (Next a, s3)"
    and "attempt = MAX_RETRIES \<or> \<not> info_retryable (classifyError e)" "attempt \<le> MAX_RETRIES"
  shows "chatStream_attempts env c msgs tools model so body attempt le acc s =
     (StreamThrew (GrokApiError (classifyError e)),
        log_failure (call_label c model ''/chat/stream'') ''GrokClient.chatStream failed'' e
             (classifyError e) s3)"
  using assms by (subst chatStream_attempts.simps) (auto simp add: Let_def)

lemma chatStream_attempts_always_fail:
  assumes fails: "\<And>req w. \<exists>chunks e w'. streamText env req w = ((chunks, Some e), w')
                     \<and> info_retryable (classifyError e)"
    and rnd: "\<And>w. 0 \<le> fst (Math_random env w) \<and> fst (Math_random env w) < 1"
    and body: "\<And>acc d s. \<exists>a s'. body acc d s = (Next a, s')
                   \<and> transport_events (trace s') = transport_events (trace s)"
    and le: "attempt \<le> MAX_RETRIES"
  shows "\<exists>e s' ds pre.
      chatStream_attempts env c msgs tools model so body attempt lastError acc s
        = (StreamThrew (GrokApiError (classifyError e)), s')
    \<and> trace s' = pre @ [
          AppendLine (API_ERROR ''POST'' (call_label c model ''/chat/stream'')
             (status_or_code (classifyError e)) (str_or (err_message e) None)),
          AppendLine (ERROR ''GrokClient.chatStream failed'' (Some e))]
    \<and> transport_events (trace s') =
        transport_events (trace s) @ attempts_with_sleeps (StreamText (build_request c msgs tools model so)) ds
    \<and> length ds = MAX_RETRIES - attempt \<and> delays_ok attempt ds"
  using le
proof (induction "MAX_RETRIES - attempt" arbitrary: attempt lastError acc s)
  case 0
  let ?req = "build_request c msgs tools model so"
  from fails obtain chunks e w where gen: "streamText env ?req (world s) = ((chunks, Some e), w)"
    by blast
  from stream_chunks_drained [where body = body, OF body] obtain a s3 where
    sc: "stream_chunks env body chunks acc ((record_event (StreamText ?req) s)\<lparr>world := w\<rparr>) = (Next a, s3)"
    and t3: "transport_events (trace s3) =
      transport_events (trace ((record_event (StreamText ?req) s)\<lparr>world := w\<rparr>))"
    by blast
  from 0 have at: "attempt = MAX_RETRIES" by simp
  let ?s4 = "log_failure (call_label c model ''/chat/stream'') ''GrokClient.chatStream failed'' e
             (classifyError e) s3"
  have res: "chatStream_attempts env c msgs tools model so body attempt lastError acc s =
     (StreamThrew (GrokApiError (classifyError e)), ?s4)"
    by (rule chatStream_attempts_raise [OF gen sc]) (simp_all add: at)
  have t4: "trace ?s4 = trace s3 @ [
          AppendLine (API_ERROR ''POST'' (call_label c model ''/chat/stream'')
             (status_or_code (classifyError e)) (str_or (err_message e) None)),
          AppendLine (ERROR ''GrokClient.chatStream failed'' (Some e))]"
    by (simp add: log_failure_trace)
  have tr4: "transport_events (trace ?s4) =
      transport_events (trace s) @ attempts_with_sleeps (StreamText ?req) []"
    by (simp add: transport_log_failure t3) (simp add: transport_events_def attempts_with_sleeps_def)
  have "length ([] :: real list) = MAX_RETRIES - attempt" "delays_ok attempt []"
    using at by simp_all
  with t4 tr4 show ?case
    unfolding res by blast
next
  case (Suc n)
  let ?req = "build_request c msgs tools model so"
  from fails obtain chunks e w where gen: "streamText env ?req (world s) = ((chunks, Some e), w)"
    and retry: "info_retryable (classifyError e)"
    by blast
  from stream_chunks_drained [where body = body, OF body] obtain a s3 where
    sc: "stream_chunks env body chunks acc ((record_event (StreamText ?req) s)\<lparr>world := w\<rparr>) = (Next a, s3)"
    and t3: "transport_events (trace s3) =
      transport_events (trace ((record_event (StreamText ?req) s)\<lparr>world := w\<rparr>))"
    by blast
  from Suc have lt: "attempt < MAX_RETRIES" by simp
  let ?s4 = "log_failure (call_label c model ''/chat/stream'') ''GrokClient.chatStream failed'' e
             (classifyError e) s3"
  let ?s5 = "backoff env ''chatStream'' attempt (classifyError e) ?s4"
  have step: "chatStream_attempts env c msgs tools model so body attempt lastError acc s =
     chatStream_attempts env c msgs tools model so body (Suc attempt) e a ?s5"
    using chatStream_attempts_retry [OF lt gen sc retry] .
  have n: "n = MAX_RETRIES - Suc attempt" and le': "Suc attempt \<le> MAX_RETRIES"
    using Suc by simp_all
  from Suc.hyps(1) [OF n le', of e a ?s5] obtain e' s' ds pre where
    r: "chatStream_attempts env c msgs tools model so body (Suc attempt) e a ?s5
          = (StreamThrew (GrokApiError (classifyError e')), s')"
    and t: "trace s' = pre @ [
          AppendLine (API_ERROR ''POST'' (call_label c model ''/chat/stream'')
             (status_or_code (classifyError e')) (str_or (err_message e') None)),
          AppendLine (ERROR ''GrokClient.chatStream failed'' (Some e'))]"
    and tr: "transport_events (trace s') = transport_events (trace ?s5) @ attempts_with_sleeps (StreamText ?req) ds"
    and len: "length ds = MAX_RETRIES - Suc attempt" and ok: "delays_ok (Suc attempt) ds"
    by blast
  have w4: "world ?s4 = world s3" by (simp add: log_failure_world)
  have tr5: "transport_events (trace ?s5) =
      transport_events (trace s) @ [StreamText ?req, Sleep (delay_of env attempt (world s3))]"
    by (simp add: transport_backoff transport_log_failure w4 t3)
       (simp add: transport_events_def)
  have tr': "transport_events (trace s') =
      transport_events (trace s) @ attempts_with_sleeps (StreamText ?req) (delay_of env attempt (world s3) # ds)"
    by (simp add: tr tr5 attempts_with_sleeps_def)
  have len': "length (delay_of env attempt (world s3) # ds) = MAX_RETRIES - attempt"
    using lt len by simp
  have ok': "delays_ok attempt (delay_of env attempt (world s3) # ds)"
    using ok delay_of_bounds [OF rnd, of attempt "world s3"] by simp
  show ?case
    unfolding step r using t tr' len' ok' by blast
qed

lemma transport_logApiRequest:
  "transport_events (trace (logApiRequest env m ep b s)) = transport_events (trace s)"
  by (simp add: logApiRequest_def appendLine_def transport_events_def)

lemma length3: "length ds = 3 \<Longrightarrow> \<exists>d0 d1 d2. ds = [d0, d1, d2]"
  by (cases ds; simp; (cases "tl ds"; simp; (cases "tl (tl ds)"; simp)))


lemma classify_503: "classifyError (http_error 503 ''Service Unavailable'') =
   \<lparr>info_status = Some 503, info_code = ''server'',
        info_message = ''Grok API server error (503). The service may be temporarily unavailable. Check https://status.x.ai for updates.'',
        info_retryable = True\<rparr>"
  by (simp add: classifyError_def http_error_def is_timeout_def is_network_def error_msg_def
      error_status_def nullish_def string_of_int_def digit_char_def Let_def)

lemma no_request_failure_lines [simp]: "\<not> list_ex is_request_line (failure_lines label failed e)"
  by (simp add: failure_lines_def)

lemma log_failure_lines:
  "trace (log_failure label failed e (classifyError e) s) = trace s @ failure_lines label failed e"
  by (simp add: log_failure_trace failure_lines_def)

lemma backoff_extends:
  "\<exists>new. trace (backoff env what attempt info s) = trace s @ new \<and> \<not> list_ex is_request_line new"
  by (simp add: backoff_trace)

lemma logApiResponse_extends:
  "\<exists>new. trace (logApiResponse env st b s) = trace s @ new \<and> \<not> list_ex is_request_line new"
  by (simp add: logApiResponse_def appendLine_def)

lemma chat_attempts_trace:
  assumes "attempt \<le> MAX_RETRIES"
    and "generateText env (build_request c msgs tools model so) (world s) = (r, w)"
  shows "\<exists>rest. trace (snd (chat_attempts env c msgs tools model so attempt lastError s)) =
            trace s @ GenerateText (build_request c msgs tools model so)
              # (case r of Inl e \<Rightarrow> failure_lines (call_label c model ''/chat'') ''GrokClient.chat failed'' e
                         | Inr resp \<Rightarrow> []) @ rest
          \<and> \<not> list_ex is_request_line rest"
  using assms
proof (induction "MAX_RETRIES - attempt" arbitrary: attempt lastError s r w)
  case 0
  then have at: "attempt = MAX_RETRIES" by simp
  let ?req = "build_request c msgs tools model so"
  show ?case
  proof (cases r)
    case (Inl e)
    have "chat_attempts env c msgs tools model so attempt lastError s =
     (Inl (GrokApiError (classifyError e)),
        log_failure (call_label c model ''/chat'') ''GrokClient.chat failed'' e (classifyError e)
             ((record_event (GenerateText ?req) s)\<lparr>world := w\<rparr>))"
      by (rule chat_attempts_raise) (use 0 Inl at in simp_all)
    then show ?thesis
      by (simp add: Inl log_failure_lines)
  next
    case (Inr resp)
    have "chat_attempts env c msgs tools model so attempt lastError s =
       (Inr (to_response env w resp),
        logApiResponse env 200 (response_log_body resp) ((record_event (GenerateText ?req) s)\<lparr>world := w\<rparr>))"
      using 0 Inr by (subst chat_attempts.simps) (simp add: Let_def)
    then show ?thesis
      using logApiResponse_extends [of env 200 "response_log_body resp" "(record_event (GenerateText ?req) s)\<lparr>world := w\<rparr>"]
      by (auto simp add: Inr)
  qed
next
  case (Suc n)
  let ?req = "build_request c msgs tools model so"
  from Suc have lt: "attempt < MAX_RETRIES" by simp
  show ?case
  proof (cases r)
    case (Inr resp)
    have "chat_attempts env c msgs tools model so attempt lastError s =
       (Inr (to_response env w resp),
        logApiResponse env 200 (response_log_body resp) ((record_event (GenerateText ?req) s)\<lparr>world := w\<rparr>))"
      using Suc.prems Inr by (subst chat_attempts.simps) (simp add: Let_def)
    then show ?thesis
      using logApiResponse_extends [of env 200 "response_log_body resp" "(record_event (GenerateText ?req) s)\<lparr>world := w\<rparr>"]
      by (auto simp add: Inr)
  next
    case (Inl e)
    let ?s2 = "log_failure (call_label c model ''/chat'') ''GrokClient.chat failed'' e (classifyError e)
             ((record_event (GenerateText ?req) s)\<lparr>world := w\<rparr>)"
    have t2: "trace ?s2 = trace s @ GenerateText ?req # failure_lines (call_label c model ''/chat'') ''GrokClient.chat failed'' e"
      by (simp add: log_failure_lines)
    show ?thesis
    proof (cases "info_retryable (classifyError e)")
      case False
      have "chat_attempts env c msgs tools model so attempt lastError s = (Inl (GrokApiError (classifyError e)), ?s2)"
        by (rule chat_attempts_raise) (use Suc.prems Inl False in simp_all)
      then show ?thesis
        by (simp add: Inl t2)
    next
      case True
      let ?s3 = "backoff env ''chat'' attempt (classifyError e) ?s2"
      have step: "chat_attempts env c msgs tools model so attempt lastError s =
          chat_attempts env c msgs tools model so (Suc attempt) e ?s3"
        by (rule chat_attempts_retry [OF lt _ True]) (use Suc.prems Inl in simp)
      obtain r' w' where g': "generateText env ?req (world ?s3) = (r', w')"
        by (cases "generateText env ?req (world ?s3)") simp
      have n: "n = MAX_RETRIES - Suc attempt" and le': "Suc attempt \<le> MAX_RETRIES"
        using Suc by simp_all
      from Suc.hyps(1) [OF n le' g', of e] obtain rest where
        r: "trace (snd (chat_attempts env c msgs tools model so (Suc attempt) e ?s3)) =
            trace ?s3 @ GenerateText ?req
              # (case r' of Inl e \<Rightarrow> failure_lines (call_label c model ''/chat'') ''GrokClient.chat failed'' e
                         | Inr resp \<Rightarrow> []) @ rest"
        and nr: "\<not> list_ex is_request_line rest"
        by blast
      from backoff_extends [of env "''chat''" attempt "classifyError e" ?s2] obtain new where
        b: "trace ?s3 = trace ?s2 @ new" and nb: "\<not> list_ex is_request_line new"
        by blast
      show ?thesis
        apply (rule exI [of _ "new @ GenerateText ?req
              # (case r' of Inl e \<Rightarrow> failure_lines (call_label c model ''/chat'') ''GrokClient.chat failed'' e
                         | Inr resp \<Rightarrow> []) @ rest"])
        unfolding step r b t2
        using nr nb by (simp add: Inl split: sum.splits)
    qed
  qed
qed


lemma stream_chunks_extends:
  assumes body: "\<And>acc d s. \<exists>new. trace (snd (body acc d s)) = trace s @ new \<and> \<not> list_ex is_request_line new"
  shows "\<exists>new. trace (snd (stream_chunks env body chunks acc s)) = trace s @ new
           \<and> \<not> list_ex is_request_line new"
proof (induction chunks arbitrary: acc s)
  case Nil
  show ?case by simp
next
  case (Cons chunk chunks)
  show ?case
  proof (cases "to_delta env chunk")
    case None
    with Cons show ?thesis by simp
  next
    case (Some d)
    obtain st s1 where b: "body acc d s = (st, s1)"
      by (cases "body acc d s") simp
    from body [of acc d s] b obtain new where n: "trace s1 = trace s @ new" "\<not> list_ex is_request_line new"
      by auto
    show ?thesis
    proof (cases st)
      case (Break a)
      with n show ?thesis by (simp add: Some b)
    next
      case (Next a)
      from Cons [of a s1] obtain new' where
        "trace (snd (stream_chunks env body chunks a s1)) = trace s1 @ new'" "\<not> list_ex is_request_line new'"
        by blast
      with n show ?thesis by (simp add: Some b Next)
    qed
  qed
qed

lemma chatStream_attempts_break:
  assumes "attempt \<le> MAX_RETRIES"
    and "streamText env (build_request c msgs tools model so) (world s) = ((chunks, failure), w)"
    and "stream_chunks env body chunks acc
           ((record_event (StreamText (build_request c msgs tools model so)) s)\<lparr>world := w\<rparr>) = (Break a, s3)"
  shows "chatStream_attempts env c msgs tools model so body attempt le acc s = (StreamBreak a, s3)"
  using assms by (subst chatStream_attempts.simps) (simp add: Let_def)

lemma chatStream_attempts_done:
  assumes "attempt \<le> MAX_RETRIES"
    and "streamText env (build_request c msgs tools model so) (world s) = ((chunks, None), w)"
    and "stream_chunks env body chunks acc
           ((record_event (StreamText (build_request c msgs tools model so)) s)\<lparr>world := w\<rparr>) = (Next a, s3)"
  shows "chatStream_attempts env c msgs tools model so body attempt le acc s =
     (StreamDone a, logApiResponse env 200 (JObj [(''stream'', JBool True)]) s3)"
  using assms by (subst chatStream_attempts.simps) (simp add: Let_def)

lemma chatStream_attempts_trace:
  assumes body: "\<And>acc d s. \<exists>new. trace (snd (body acc d s)) = trace s @ new \<and> \<not> list_ex is_request_line new"
    and "attempt \<le> MAX_RETRIES"
    and "streamText env (build_request c msgs tools model so) (world s) = ((chunks, failure), w)"
    and "stream_chunks env body chunks acc
           ((record_event (StreamText (build_request c msgs tools model so)) s)\<lparr>world := w\<rparr>) = (st, s3)"
  shows "\<exists>rest. trace (snd (chatStream_attempts env c msgs tools model so body attempt lastError acc s)) =
            trace s3 @ (case st of Break a \<Rightarrow> []
                        | Next a \<Rightarrow> (case failure of
                             Some e \<Rightarrow> failure_lines (call_label c model ''/chat/stream'')
                                         ''GrokClient.chatStream failed'' e
                           | None \<Rightarrow> [])) @ rest
          \<and> \<not> list_ex is_request_line rest"
  using assms(2-)
proof (induction "MAX_RETRIES - attempt" arbitrary: attempt lastError acc s chunks failure w st s3)
  case 0
  then have at: "attempt = MAX_RETRIES" by simp
  let ?req = "build_request c msgs tools model so"
  show ?case
  proof (cases st)
    case (Break a)
    have "chatStream_attempts env c msgs tools model so body attempt lastError acc s = (StreamBreak a, s3)"
      by (rule chatStream_attempts_break) (use "0.prems" Break in simp_all)
    then show ?thesis
      by (simp add: Break)
  next
    case (Next a)
    show ?thesis
    proof (cases failure)
      case None
      have "chatStream_attempts env c msgs tools model so body attempt lastError acc s =
        (StreamDone a, logApiResponse env 200 (JObj [(''stream'', JBool True)]) s3)"
        by (rule chatStream_attempts_done) (use "0.prems" None Next in simp_all)
      then show ?thesis
        using logApiResponse_extends [of env 200 "JObj [(''stream'', JBool True)]" s3]
        by (auto simp add: None Next)
    next
      case (Some e)
      have "chatStream_attempts env c msgs tools model so body attempt lastError acc s =
        (StreamThrew (GrokApiError (classifyError e)),
          log_failure (call_label c model ''/chat/stream'') ''GrokClient.chatStream failed'' e
             (classifyError e) s3)"
        by (rule chatStream_attempts_raise) (use "0.prems" Some Next at in simp_all)
      then show ?thesis
        by (simp add: Some Next log_failure_lines)
    qed
  qed
next
  case (Suc n)
  let ?req = "build_request c msgs tools model so"
  from Suc have lt: "attempt < MAX_RETRIES" by simp
  show ?case
  proof (cases st)
    case (Break a)
    have "chatStream_attempts env c msgs tools model so body attempt lastError acc s = (StreamBreak a, s3)"
      by (rule chatStream_attempts_break) (use Suc.prems Break in simp_all)
    then show ?thesis
      by (simp add: Break)
  next
    case (Next a)
    show ?thesis
    proof (cases failure)
      case None
      have "chatStream_attempts env c msgs tools model so body attempt lastError acc s =
        (StreamDone a, logApiResponse env 200 (JObj [(''stream'', JBool True)]) s3)"
        by (rule chatStream_attempts_done) (use Suc.prems None Next in simp_all)
      then show ?thesis
        using logApiResponse_extends [of env 200 "JObj [(''stream'', JBool True)]" s3]
        by (auto simp add: None Next)
    next
      case (Some e)
      let ?s4 = "log_failure (call_label c model ''/chat/stream'') ''GrokClient.chatStream failed'' e
             (classifyError e) s3"
      have t4: "trace ?s4 = trace s3 @ failure_lines (call_label c model ''/chat/stream'')
                   ''GrokClient.chatStream failed'' e"
        by (simp add: log_failure_lines)
      show ?thesis
      proof (cases "info_retryable (classifyError e)")
        case False
        have "chatStream_attempts env c msgs tools model so body attempt lastError acc s =
            (StreamThrew (GrokApiError (classifyError e)), ?s4)"
          by (rule chatStream_attempts_raise) (use Suc.prems Some Next False in simp_all)
        then show ?thesis
          by (simp add: Some Next t4)
      next
        case True
        let ?s5 = "backoff env ''chatStream'' attempt (classifyError e) ?s4"
        have step: "chatStream_attempts env c msgs tools model so body attempt lastError acc s =
            chatStream_attempts env c msgs tools model so body (Suc attempt) e a ?s5"
          by (rule chatStream_attempts_retry [OF lt _ _ True]) (use Suc.prems Some Next in simp_all)
        obtain chunks' failure' w' where g': "streamText env ?req (world ?s5) = ((chunks', failure'), w')"
          by (cases "streamText env ?req (world ?s5)") auto
        let ?s6 = "(record_event (StreamText ?req) ?s5)\<lparr>world := w'\<rparr>"
        obtain st' s7 where sc': "stream_chunks env body chunks' a ?s6 = (st', s7)"
          by (cases "stream_chunks env body chunks' a ?s6") simp
        have n: "n = MAX_RETRIES - Suc attempt" and le': "Suc attempt \<le> MAX_RETRIES"
          using Suc by simp_all
        from Suc.hyps(1) [OF n le' g' sc', of e] obtain rest where
          r: "trace (snd (chatStream_attempts env c msgs tools model so body (Suc attempt) e a ?s5)) =
            trace s7 @ (case st' of Break a \<Rightarrow> []
                        | Next a \<Rightarrow> (case failure' of
                             Some e \<Rightarrow> failure_lines (call_label c model ''/chat/stream'')
                                         ''GrokClient.chatStream failed'' e
                           | None \<Rightarrow> [])) @ rest"
          and nr: "\<not> list_ex is_request_line rest"
          by blast
        from stream_chunks_extends [where body = body, OF body, of env chunks' a ?s6] sc' obtain new7 where
          t7: "trace s7 = trace ?s6 @ new7" and n7: "\<not> list_ex is_request_line new7"
          by auto
        from backoff_extends [of env "''chatStream''" attempt "classifyError e" ?s4] obtain new where
          b: "trace ?s5 = trace ?s4 @ new" and nb: "\<not> list_ex is_request_line new"
          by blast
        have t6: "trace ?s6 = trace ?s5 @ [StreamText ?req]"
          by simp
        show ?thesis
          apply (rule exI [of _ "new @ StreamText ?req # new7 @ (case st' of Break a \<Rightarrow> []
                        | Next a \<Rightarrow> (case failure' of
                             Some e \<Rightarrow> failure_lines (call_label c model ''/chat/stream'')
                                         ''GrokClient.chatStream failed'' e
                           | None \<Rightarrow> [])) @ rest"])
          unfolding step r t7 t6 b t4
          using nr nb n7 by (simp add: Some Next split: step.splits option.splits)
      qed
    qed
  qed
qed


text \<open>
  Claim C2. Against a backend on which every attempt fails with an error classified as
  retryable, \<^verbatim>\<open>chat\<close> and \<^verbatim>\<open>chatStream\<close> (drained by a consumer that stays in its loop and
  issues no transport event itself) perform four attempts, sleep between consecutive
  attempts for the base delay doubled per attempt plus a jitter in [0, 500), and raise the
  structured error built from the classification of the error logged last, that of the
  fourth attempt. The jitter is \<^verbatim>\<open>Math.random() * 500\<close>; the draw lies in [0, 1).
\<close>

theorem retries_exhausted:
  assumes fails: "\<And>req w. \<exists>e w'. generateText env req w = (Inl e, w')
                     \<and> info_retryable (classifyError e)"
    and sfails: "\<And>req w. \<exists>chunks e w'. streamText env req w = ((chunks, Some e), w')
                     \<and> info_retryable (classifyError e)"
    and rnd: "\<And>w. 0 \<le> fst (Math_random env w) \<and> fst (Math_random env w) < 1"
    and body: "\<And>acc d s. \<exists>a s'. body acc d s = (Next a, s')
                   \<and> transport_events (trace s') = transport_events (trace s)"
  shows "(\<exists>e s' pre j0 j1 j2.
            chat env c msgs tools model so s = (Inl (GrokApiError (classifyError e)), s')
          \<and> trace s' = pre @ GenerateText (build_request c msgs tools model so)
               # failure_lines (call_label c model ''/chat'') ''GrokClient.chat failed'' e
          \<and> transport_events (trace s') = transport_events (trace s) @
               [GenerateText (build_request c msgs tools model so), Sleep (BASE_DELAY_MS * 2 ^ 0 + j0),
                GenerateText (build_request c msgs tools model so), Sleep (BASE_DELAY_MS * 2 ^ 1 + j1),
                GenerateText (build_request c msgs tools model so), Sleep (BASE_DELAY_MS * 2 ^ 2 + j2),
                GenerateText (build_request c msgs tools model so)]
          \<and> 0 \<le> j0 \<and> j0 < 500 \<and> 0 \<le> j1 \<and> j1 < 500 \<and> 0 \<le> j2 \<and> j2 < 500)
       \<and> (\<exists>e s' pre j0 j1 j2.
            chatStream env c msgs tools model so body acc s
              = (StreamThrew (GrokApiError (classifyError e)), s')
          \<and> trace s' = pre
               @ failure_lines (call_label c model ''/chat/stream'') ''GrokClient.chatStream failed'' e
          \<and> transport_events (trace s') = transport_events (trace s) @
               [StreamText (build_request c msgs tools model so), Sleep (BASE_DELAY_MS * 2 ^ 0 + j0),
                StreamText (build_request c msgs tools model so), Sleep (BASE_DELAY_MS * 2 ^ 1 + j1),
                StreamText (build_request c msgs tools model so), Sleep (BASE_DELAY_MS * 2 ^ 2 + j2),
                StreamText (build_request c msgs tools model so)]
          \<and> 0 \<le> j0 \<and> j0 < 500 \<and> 0 \<le> j1 \<and> j1 < 500 \<and> 0 \<le> j2 \<and> j2 < 500)"
proof
  let ?req = "build_request c msgs tools model so"
  let ?s0 = "logApiRequest env ''POST'' (call_label c model ''/chat'') (request_log_body msgs tools) s"
  have le: "0 \<le> MAX_RETRIES" by simp
  from chat_attempts_always_fail [OF fails rnd le, of c msgs tools model so js_undefined ?s0]
  obtain e s' ds pre where
    r: "chat env c msgs tools model so s = (Inl (GrokApiError (classifyError e)), s')"
    and t: "trace s' = pre @ [GenerateText ?req,
          AppendLine (API_ERROR ''POST'' (call_label c model ''/chat'')
             (status_or_code (classifyError e)) (str_or (err_message e) None)),
          AppendLine (ERROR ''GrokClient.chat failed'' (Some e))]"
    and tr: "transport_events (trace s') = transport_events (trace ?s0) @ attempts_with_sleeps (GenerateText ?req) ds"
    and len: "length ds = MAX_RETRIES - 0" and ok: "delays_ok 0 ds"
    unfolding chat_def by blast
  from len obtain d0 d1 d2 where ds: "ds = [d0, d1, d2]"
    using length3 [of ds] by (auto simp add: MAX_RETRIES_def)
  have tr': "transport_events (trace s') = transport_events (trace s) @
       [GenerateText ?req, Sleep (BASE_DELAY_MS * 2 ^ 0 + (d0 - BASE_DELAY_MS * 2 ^ 0)),
        GenerateText ?req, Sleep (BASE_DELAY_MS * 2 ^ 1 + (d1 - BASE_DELAY_MS * 2 ^ 1)),
        GenerateText ?req, Sleep (BASE_DELAY_MS * 2 ^ 2 + (d2 - BASE_DELAY_MS * 2 ^ 2)),
        GenerateText ?req]"
    by (simp add: tr ds transport_logApiRequest attempts_with_sleeps_def)
  have bounds: "0 \<le> d0 - BASE_DELAY_MS * 2 ^ 0 \<and> d0 - BASE_DELAY_MS * 2 ^ 0 < 500
      \<and> 0 \<le> d1 - BASE_DELAY_MS * 2 ^ 1 \<and> d1 - BASE_DELAY_MS * 2 ^ 1 < 500
      \<and> 0 \<le> d2 - BASE_DELAY_MS * 2 ^ 2 \<and> d2 - BASE_DELAY_MS * 2 ^ 2 < 500"
    using ok by (simp add: ds numeral_2_eq_2)
  have t': "trace s' = pre @ GenerateText ?req
               # failure_lines (call_label c model ''/chat'') ''GrokClient.chat failed'' e"
    by (simp add: t failure_lines_def)
  show "\<exists>e s' pre j0 j1 j2.
            chat env c msgs tools model so s = (Inl (GrokApiError (classifyError e)), s')
          \<and> trace s' = pre @ GenerateText ?req
               # failure_lines (call_label c model ''/chat'') ''GrokClient.chat failed'' e
          \<and> transport_events (trace s') = transport_events (trace s) @
               [GenerateText ?req, Sleep (BASE_DELAY_MS * 2 ^ 0 + j0),
                GenerateText ?req, Sleep (BASE_DELAY_MS * 2 ^ 1 + j1),
                GenerateText ?req, Sleep (BASE_DELAY_MS * 2 ^ 2 + j2),
                GenerateText ?req]
          \<and> 0 \<le> j0 \<and> j0 < 500 \<and> 0 \<le> j1 \<and> j1 < 500 \<and> 0 \<le> j2 \<and> j2 < 500"
    using r t' tr' bounds by blast
next
  let ?req = "build_request c msgs tools model so"
  let ?s0 = "logApiRequest env ''POST'' (call_label c model ''/chat/stream'') (request_log_body msgs tools) s"
  have le: "0 \<le> MAX_RETRIES" by simp
  from chatStream_attempts_always_fail [where body = body, OF sfails rnd body le,
      of c msgs tools model so js_undefined acc ?s0]
  obtain e s' ds pre where
    r: "chatStream env c msgs tools model so body acc s = (StreamThrew (GrokApiError (classifyError e)), s')"
    and t: "trace s' = pre @ [
          AppendLine (API_ERROR ''POST'' (call_label c model ''/chat/stream'')
             (status_or_code (classifyError e)) (str_or (err_message e) None)),
          AppendLine (ERROR ''GrokClient.chatStream failed'' (Some e))]"
    and tr: "transport_events (trace s') = transport_events (trace ?s0) @ attempts_with_sleeps (StreamText ?req) ds"
    and len: "length ds = MAX_RETRIES - 0" and ok: "delays_ok 0 ds"
    unfolding chatStream_def by blast
  from len obtain d0 d1 d2 where ds: "ds = [d0, d1, d2]"
    using length3 [of ds] by (auto simp add: MAX_RETRIES_def)
  have tr': "transport_events (trace s') = transport_events (trace s) @
       [StreamText ?req, Sleep (BASE_DELAY_MS * 2 ^ 0 + (d0 - BASE_DELAY_MS * 2 ^ 0)),
        StreamText ?req, Sleep (BASE_DELAY_MS * 2 ^ 1 + (d1 - BASE_DELAY_MS * 2 ^ 1)),
        StreamText ?req, Sleep (BASE_DELAY_MS * 2 ^ 2 + (d2 - BASE_DELAY_MS * 2 ^ 2)),
        StreamText ?req]"
    by (simp add: tr ds transport_logApiRequest attempts_with_sleeps_def)
  have bounds: "0 \<le> d0 - BASE_DELAY_MS * 2 ^ 0 \<and> d0 - BASE_DELAY_MS * 2 ^ 0 < 500
      \<and> 0 \<le> d1 - BASE_DELAY_MS * 2 ^ 1 \<and> d1 - BASE_DELAY_MS * 2 ^ 1 < 500
      \<and> 0 \<le> d2 - BASE_DELAY_MS * 2 ^ 2 \<and> d2 - BASE_DELAY_MS * 2 ^ 2 < 500"
    using ok by (simp add: ds numeral_2_eq_2)
  have t': "trace s' = pre
               @ failure_lines (call_label c model ''/chat/stream'') ''GrokClient.chatStream failed'' e"
    by (simp add: t failure_lines_def)
  show "\<exists>e s' pre j0 j1 j2.
            chatStream env c msgs tools model so body acc s
              = (StreamThrew (GrokApiError (classifyError e)), s')
          \<and> trace s' = pre
               @ failure_lines (call_label c model ''/chat/stream'') ''GrokClient.chatStream failed'' e
          \<and> transport_events (trace s') = transport_events (trace s) @
               [StreamText ?req, Sleep (BASE_DELAY_MS * 2 ^ 0 + j0),
                StreamText ?req, Sleep (BASE_DELAY_MS * 2 ^ 1 + j1),
                StreamText ?req, Sleep (BASE_DELAY_MS * 2 ^ 2 + j2),
                StreamText ?req]
          \<and> 0 \<le> j0 \<and> j0 < 500 \<and> 0 \<le> j1 \<and> j1 < 500 \<and> 0 \<le> j2 \<and> j2 < 500"
    using r t' tr' bounds by blast
qed

theorem retries_exhausted_witness:
  "(\<forall>req w. \<exists>e w'. generateText down_env req w = (Inl e, w') \<and> info_retryable (classifyError e))
   \<and> (\<forall>req w. \<exists>chunks e w'. streamText down_env req w = ((chunks, Some e), w')
          \<and> info_retryable (classifyError e))
   \<and> (\<forall>w. 0 \<le> fst (Math_random down_env w) \<and> fst (Math_random down_env w) < 1)
   \<and> (\<forall>acc d s. \<exists>a s'. drain acc d s = (Next a, s')
          \<and> transport_events (trace s') = transport_events (trace s))
   \<and> (\<exists>e s' pre j0 j1 j2.
          chat down_env example_client [] None None None start
            = (Inl (GrokApiError (classifyError e)), s')
        \<and> trace s' = pre @ GenerateText (build_request example_client [] None None None)
             # failure_lines (call_label example_client None ''/chat'') ''GrokClient.chat failed'' e
        \<and> transport_events (trace s') = transport_events (trace start) @
             [GenerateText (build_request example_client [] None None None), Sleep (BASE_DELAY_MS * 2 ^ 0 + j0),
              GenerateText (build_request example_client [] None None None), Sleep (BASE_DELAY_MS * 2 ^ 1 + j1),
              GenerateText (build_request example_client [] None None None), Sleep (BASE_DELAY_MS * 2 ^ 2 + j2),
              GenerateText (build_request example_client [] None None None)]
        \<and> 0 \<le> j0 \<and> j0 < 500 \<and> 0 \<le> j1 \<and> j1 < 500 \<and> 0 \<le> j2 \<and> j2 < 500)
   \<and> (\<exists>e s' pre j0 j1 j2.
          chatStream down_env example_client [] None None None drain [] start
            = (StreamThrew (GrokApiError (classifyError e)), s')
        \<and> trace s' = pre
             @ failure_lines (call_label example_client None ''/chat/stream'') ''GrokClient.chatStream failed'' e
        \<and> transport_events (trace s') = transport_events (trace start) @
             [StreamText (build_request example_client [] None None None), Sleep (BASE_DELAY_MS * 2 ^ 0 + j0),
              StreamText (build_request example_client [] None None None), Sleep (BASE_DELAY_MS * 2 ^ 1 + j1),
              StreamText (build_request example_client [] None None None), Sleep (BASE_DELAY_MS * 2 ^ 2 + j2),
              StreamText (build_request example_client [] None None None)]
        \<and> 0 \<le> j0 \<and> j0 < 500 \<and> 0 \<le> j1 \<and> j1 < 500 \<and> 0 \<le> j2 \<and> j2 < 500)"
proof -
  have h1: "\<exists>e w'. generateText down_env req w = (Inl e, w') \<and> info_retryable (classifyError e)"
    for req w
    by (simp add: down_env_def example_env_def down_backend_def classify_503)
  have h2: "\<exists>chunks e w'. streamText down_env req w = ((chunks, Some e), w')
          \<and> info_retryable (classifyError e)" for req w
    by (simp add: down_env_def example_env_def classify_503)
  have h3: "0 \<le> fst (Math_random down_env w) \<and> fst (Math_random down_env w) < 1" for w
    by (simp add: down_env_def example_env_def)
  have h4: "\<exists>a s'. drain acc d s = (Next a, s')
          \<and> transport_events (trace s') = transport_events (trace s)" for acc d s
    by (simp add: drain_def)
  show ?thesis
    using retries_exhausted [where env = down_env and body = drain, OF h1 h2 h3 h4,
        of example_client "[]" None None None start "[]"] h1 h2 h3 h4
    by blast
qed

text \<open>
  Claim C9, as amended. A transport call logs the outgoing call (method, endpoint with the
  model, message count) once, before its first attempt, and the line is written only when
  debug logging is on; the attempts themselves add no such line. Every failed attempt logs
  the status or code and the message, right after the attempt and before anything the
  retry-or-raise decision does.
\<close>

theorem transport_logging:
  assumes body: "\<And>acc d s. \<exists>new. trace (snd (body acc d s)) = trace s @ new
                   \<and> \<not> list_ex is_request_line new"
  shows "(\<exists>rest. trace (snd (chat env c msgs tools model so s)) =
            trace s @ (if GROK_DEBUG env (world s)
                       then [AppendLine (API_REQUEST ''POST'' (call_label c model ''/chat'')
                               (Some (request_log_body msgs tools)))]
                       else [])
              @ GenerateText (build_request c msgs tools model so) # rest
          \<and> \<not> list_ex is_request_line rest)
       \<and> (\<exists>rest. trace (snd (chatStream env c msgs tools model so body acc s)) =
            trace s @ (if GROK_DEBUG env (world s)
                       then [AppendLine (API_REQUEST ''POST'' (call_label c model ''/chat/stream'')
                               (Some (request_log_body msgs tools)))]
                       else [])
              @ StreamText (build_request c msgs tools model so) # rest
          \<and> \<not> list_ex is_request_line rest)
       \<and> (attempt \<le> MAX_RETRIES
            \<and> generateText env (build_request c msgs tools model so) (world s) = (Inl e, w) \<longrightarrow>
          (\<exists>rest. trace (snd (chat_attempts env c msgs tools model so attempt lastError s)) =
             trace s @ GenerateText (build_request c msgs tools model so)
               # failure_lines (call_label c model ''/chat'') ''GrokClient.chat failed'' e @ rest))
       \<and> (attempt \<le> MAX_RETRIES
            \<and> streamText env (build_request c msgs tools model so) (world s) = ((chunks, Some e), w)
            \<and> stream_chunks env body chunks acc
                 ((record_event (StreamText (build_request c msgs tools model so)) s)\<lparr>world := w\<rparr>)
                = (Next a, s3) \<longrightarrow>
          (\<exists>rest. trace (snd (chatStream_attempts env c msgs tools model so body attempt lastError acc s)) =
             trace s3
               @ failure_lines (call_label c model ''/chat/stream'') ''GrokClient.chatStream failed'' e
               @ rest))"
proof (intro conjI impI)
  let ?req = "build_request c msgs tools model so"
  let ?s0 = "logApiRequest env ''POST'' (call_label c model ''/chat'') (request_log_body msgs tools) s"
  have t0: "trace ?s0 = trace s @ (if GROK_DEBUG env (world s)
                       then [AppendLine (API_REQUEST ''POST'' (call_label c model ''/chat'')
                               (Some (request_log_body msgs tools)))]
                       else [])"
    by (simp add: logApiRequest_def isDebug_def appendLine_def safeBody_def request_log_body_def)
  obtain r w' where g: "generateText env ?req (world ?s0) = (r, w')"
    by (cases "generateText env ?req (world ?s0)") simp
  have le: "0 \<le> MAX_RETRIES" by simp
  from chat_attempts_trace [OF le g, of js_undefined] obtain rest where
    "trace (snd (chat env c msgs tools model so s)) =
       trace ?s0 @ GenerateText ?req
         # (case r of Inl e \<Rightarrow> failure_lines (call_label c model ''/chat'') ''GrokClient.chat failed'' e
                    | Inr resp \<Rightarrow> []) @ rest"
    and "\<not> list_ex is_request_line rest"
    unfolding chat_def by blast
  then show "\<exists>rest. trace (snd (chat env c msgs tools model so s)) =
            trace s @ (if GROK_DEBUG env (world s)
                       then [AppendLine (API_REQUEST ''POST'' (call_label c model ''/chat'')
                               (Some (request_log_body msgs tools)))]
                       else [])
              @ GenerateText ?req # rest
          \<and> \<not> list_ex is_request_line rest"
    unfolding t0
    by (intro exI [of _ "(case r of Inl e \<Rightarrow> failure_lines (call_label c model ''/chat'') ''GrokClient.chat failed'' e
                    | Inr resp \<Rightarrow> []) @ rest"]) (simp split: sum.splits)
next
  let ?req = "build_request c msgs tools model so"
  let ?s0 = "logApiRequest env ''POST'' (call_label c model ''/chat/stream'') (request_log_body msgs tools) s"
  have t0: "trace ?s0 = trace s @ (if GROK_DEBUG env (world s)
                       then [AppendLine (API_REQUEST ''POST'' (call_label c model ''/chat/stream'')
                               (Some (request_log_body msgs tools)))]
                       else [])"
    by (simp add: logApiRequest_def isDebug_def appendLine_def safeBody_def request_log_body_def)
  obtain chunks' failure' w' where g: "streamText env ?req (world ?s0) = ((chunks', failure'), w')"
    by (cases "streamText env ?req (world ?s0)") auto
  let ?s1 = "(record_event (StreamText ?req) ?s0)\<lparr>world := w'\<rparr>"
  obtain st s3' where sc: "stream_chunks env body chunks' acc ?s1 = (st, s3')"
    by (cases "stream_chunks env body chunks' acc ?s1") simp
  from stream_chunks_extends [where body = body, OF body, of env chunks' acc ?s1] sc obtain new where
    t3: "trace s3' = trace ?s1 @ new" and n3: "\<not> list_ex is_request_line new"
    by auto
  have le: "0 \<le> MAX_RETRIES" by simp
  from chatStream_attempts_trace [where body = body, OF body le g sc, of js_undefined] obtain rest where
    "trace (snd (chatStream env c msgs tools model so body acc s)) =
       trace s3' @ (case st of Break a \<Rightarrow> []
                        | Next a \<Rightarrow> (case failure' of
                             Some e \<Rightarrow> failure_lines (call_label c model ''/chat/stream'')
                                         ''GrokClient.chatStream failed'' e
                           | None \<Rightarrow> [])) @ rest"
    and "\<not> list_ex is_request_line rest"
    unfolding chatStream_def by blast
  then show "\<exists>rest. trace (snd (chatStream env c msgs tools model so body acc s)) =
            trace s @ (if GROK_DEBUG env (world s)
                       then [AppendLine (API_REQUEST ''POST'' (call_label c model ''/chat/stream'')
                               (Some (request_log_body msgs tools)))]
                       else [])
              @ StreamText ?req # rest
          \<and> \<not> list_ex is_request_line rest"
    unfolding t3
    using n3
    by (intro exI [of _ "new @ (case st of Break a \<Rightarrow> []
                        | Next a \<Rightarrow> (case failure' of
                             Some e \<Rightarrow> failure_lines (call_label c model ''/chat/stream'')
                                         ''GrokClient.chatStream failed'' e
                           | None \<Rightarrow> [])) @ rest"])
       (simp add: t0 split: step.splits option.splits)
next
  assume a: "attempt \<le> MAX_RETRIES
     \<and> generateText env (build_request c msgs tools model so) (world s) = (Inl e, w)"
  then have le: "attempt \<le> MAX_RETRIES"
    and g: "generateText env (build_request c msgs tools model so) (world s) = (Inl e, w)"
    by simp_all
  from chat_attempts_trace [OF le g, of lastError]
  show "\<exists>rest. trace (snd (chat_attempts env c msgs tools model so attempt lastError s)) =
             trace s @ GenerateText (build_request c msgs tools model so)
               # failure_lines (call_label c model ''/chat'') ''GrokClient.chat failed'' e @ rest"
    by auto
next
  assume a: "attempt \<le> MAX_RETRIES
            \<and> streamText env (build_request c msgs tools model so) (world s) = ((chunks, Some e), w)
            \<and> stream_chunks env body chunks acc
                 ((record_event (StreamText (build_request c msgs tools model so)) s)\<lparr>world := w\<rparr>)
                = (Next a, s3)"
  then have le: "attempt \<le> MAX_RETRIES"
    and g: "streamText env (build_request c msgs tools model so) (world s) = ((chunks, Some e), w)"
    and sc: "stream_chunks env body chunks acc
                 ((record_event (StreamText (build_request c msgs tools model so)) s)\<lparr>world := w\<rparr>)
                = (Next a, s3)"
    by simp_all
  from chatStream_attempts_trace [where body = body, OF body le g sc, of lastError]
  show "\<exists>rest. trace (snd (chatStream_attempts env c msgs tools model so body attempt lastError acc s)) =
             trace s3
               @ failure_lines (call_label c model ''/chat/stream'') ''GrokClient.chatStream failed'' e
               @ rest"
    by auto
qed

theorem transport_logging_witness:
  "(\<forall>acc d s. \<exists>new. trace (snd (drain acc d s)) = trace s @ new \<and> \<not> list_ex is_request_line new)
   \<and> (0 :: nat) \<le> MAX_RETRIES
   \<and> generateText flaky_env (build_request example_client [] None None None) (world start)
        = (Inl (http_error 503 ''Service Unavailable''), 1)
   \<and> streamText flaky_env (build_request example_client [] None None None) (world start)
        = (([TextDelta (Some ''par'')], Some (http_error 503 ''Service Unavailable'')), 1)
   \<and> stream_chunks flaky_env drain [TextDelta (Some ''par'')] []
        ((record_event (StreamText (build_request example_client [] None None None)) start)\<lparr>world := 1\<rparr>)
        = (Next [\<lparr>delta_content = Some ''par'', delta_tool_calls = None\<rparr>],
           (record_event (StreamText (build_request example_client [] None None None)) start)\<lparr>world := 1\<rparr>)
   \<and> (\<exists>rest. trace (snd (chat flaky_env example_client [] None None None start)) =
          trace start @ [AppendLine (API_REQUEST ''POST'' (call_label example_client None ''/chat'')
                           (Some (request_log_body [] None)))]
            @ GenerateText (build_request example_client [] None None None) # rest
        \<and> \<not> list_ex is_request_line rest)
   \<and> (\<exists>rest. trace (snd (chat_attempts flaky_env example_client [] None None None 0 js_undefined start)) =
          trace start @ GenerateText (build_request example_client [] None None None)
            # failure_lines (call_label example_client None ''/chat'') ''GrokClient.chat failed''
                (http_error 503 ''Service Unavailable'') @ rest)
   \<and> (\<exists>rest. trace (snd (chatStream_attempts flaky_env example_client [] None None None drain 0
                            js_undefined [] start)) =
          trace ((record_event (StreamText (build_request example_client [] None None None)) start)\<lparr>world := 1\<rparr>)
            @ failure_lines (call_label example_client None ''/chat/stream'') ''GrokClient.chatStream failed''
                (http_error 503 ''Service Unavailable'') @ rest)"
proof -
  have h: "\<exists>new. trace (snd (drain acc d s)) = trace s @ new \<and> \<not> list_ex is_request_line new"
    for acc d s
    by (simp add: drain_def)
  have le: "(0 :: nat) \<le> MAX_RETRIES" by simp
  have g: "generateText flaky_env (build_request example_client [] None None None) (world start)
        = (Inl (http_error 503 ''Service Unavailable''), 1)"
    by (simp add: flaky_env_def example_env_def flaky_backend_def start_def)
  have st: "streamText flaky_env (build_request example_client [] None None None) (world start)
        = (([TextDelta (Some ''par'')], Some (http_error 503 ''Service Unavailable'')), 1)"
    by (simp add: flaky_env_def example_env_def start_def)
  have sc: "stream_chunks flaky_env drain [TextDelta (Some ''par'')] []
        ((record_event (StreamText (build_request example_client [] None None None)) start)\<lparr>world := 1\<rparr>)
        = (Next [\<lparr>delta_content = Some ''par'', delta_tool_calls = None\<rparr>],
           (record_event (StreamText (build_request example_client [] None None None)) start)\<lparr>world := 1\<rparr>)"
    by (simp add: to_delta_def drain_def)
  have dbg: "GROK_DEBUG flaky_env (world start)"
    by (simp add: flaky_env_def example_env_def)
  show ?thesis
    using transport_logging [where env = flaky_env and body = drain, OF h,
        of example_client "[]" None None None start "[]" 0
           "http_error 503 ''Service Unavailable''" 1 js_undefined "[TextDelta (Some ''par'')]"
           "[\<lparr>delta_content = Some ''par'', delta_tool_calls = None\<rparr>]"
           "(record_event (StreamText (build_request example_client [] None None None)) start)\<lparr>world := 1\<rparr>"]
      h le g st sc dbg
    by simp
qed

text \<open>
  The claim as first stated fails: when the first attempt fails with a retryable error and
  the second succeeds, two requests are issued but the outgoing call is logged once, before
  the first; no such line precedes the retry.
\<close>

theorem request_logged_once_counterexample:
  "filter (\<lambda>ev. is_attempt ev \<or> is_request_line ev)
     (trace (snd (chat flaky_env example_client [] None None None start))) =
   [AppendLine (API_REQUEST ''POST'' (call_label example_client None ''/chat'')
      (Some (request_log_body [] None))),
    GenerateText (build_request example_client [] None None None),
    GenerateText (build_request example_client [] None None None)]"
  by (simp add: chat_def chat_attempts.simps [of _ _ _ _ _ _ 0] chat_attempts.simps [of _ _ _ _ _ _ "Suc 0"]
      chat_attempts.simps [of _ _ _ _ _ _ 1] flaky_env_def example_env_def start_def flaky_backend_def
      logApiRequest_def isDebug_def appendLine_def MAX_RETRIES_def classify_503 log_failure_def
      logApiError_def logger_error_def safeBody_def request_log_body_def
      backoff_def logger_info_def logApiResponse_def Let_def)
section \<open>Properties of the Tool Dispatcher\<close>

lemma executeMCPTool_returns: "\<exists>r s'. executeMCPTool env tc s = (Inr r, s')"
  by (simp add: executeMCPTool_def try_catch_def split: prod.splits sum.splits)

lemma executeTool_returns: "\<exists>r s'. executeTool env morph tc s = (Inr r, s')"
  by (simp add: executeTool_def try_catch_def split: prod.splits sum.splits)







section \<open>Properties of the buffered Agent Loop\<close>

lemma messages_push_message [simp]:
  "messages (fst (push_message m st s)) = messages st @ [m]"
  by (simp add: push_message_def)

lemma messages_push_entry [simp]: "messages (push_entry e st) = messages st"
  by (simp add: push_entry_def)

lemma call_collaborator_trace [simp]: "trace (snd (call_collaborator env name args s)) = trace s"
  by (simp add: call_collaborator_def split: prod.splits)

lemma reading_trace:
  "(\<And>s. trace (snd (f s)) = trace s) \<Longrightarrow> trace (snd (reading args k f s)) = trace s"
  by (simp add: reading_def)

lemma executeMCPTool_trace [simp]: "trace (snd (executeMCPTool env tc s)) = trace s"
  by (simp add: executeMCPTool_def executeMCPTool_try_def try_catch_def Let_def
      split: prod.splits sum.splits)

lemma bash_trace:
  "trace (snd (case call_collaborator env name args s of
                 (Inl e, s1) \<Rightarrow> (Inl e, s1)
               | (Inr result, s1) \<Rightarrow> (Inr result, syncCurrentDirectory env s1))) = trace s"
proof -
  obtain r s1 where c: "call_collaborator env name args s = (r, s1)"
    by (cases "call_collaborator env name args s") simp
  then have "trace s1 = trace s"
    using call_collaborator_trace [of env name args s] by simp
  with c show ?thesis
    by (cases r) (simp_all add: syncCurrentDirectory_def)
qed

lemma executeTool_try_trace: "trace (snd (executeTool_try env morph tc s)) = trace s"
  unfolding executeTool_try_def Let_def
  by (simp add: reading_trace bash_trace split: sum.splits option.splits)

lemma executeTool_trace:
  "\<exists>r s' lines. executeTool env morph tc s = (Inr r, s')
     \<and> trace s' = trace s @ ExecuteTool tc # lines \<and> list_all is_log lines"
proof -
  let ?s0 = "record_event (ExecuteTool tc) s"
  obtain r s1 where t: "executeTool_try env morph tc ?s0 = (r, s1)"
    by (cases "executeTool_try env morph tc ?s0") simp
  then have t1: "trace s1 = trace s @ [ExecuteTool tc]"
    using executeTool_try_trace [of env morph tc ?s0] by simp
  show ?thesis
  proof (cases r)
    case (Inl e)
    with t t1 show ?thesis
      by (simp add: executeTool_def try_catch_def logger_error_def appendLine_def is_log_def)
  next
    case (Inr res)
    with t t1 show ?thesis
      by (simp add: executeTool_def try_catch_def)
  qed
qed


lemma pushes_simps [simp]:
  "pushes [] = []"
  "pushes (a @ b) = pushes a @ pushes b"
  "pushes (PushMessage m # t) = m # pushes t"
  "pushes (ExecuteTool tc # t) = pushes t"
  "pushes (Yield y # t) = pushes t"
  "pushes (AbortRead b' # t) = pushes t"
  "pushes (AppendLine l # t) = pushes t"
  by (simp_all add: pushes_def)

lemma pushes_quiet: "list_all quiet t \<Longrightarrow> pushes t = []"
  by (induction t) (auto simp add: pushes_def elim: quiet.elims)

lemma pushes_logs: "list_all is_log t \<Longrightarrow> pushes t = []"
  by (induction t) (auto simp add: pushes_def is_log_def split: trace_event.splits)

lemma backoff_quiet:
  "\<exists>new. trace (backoff env what attempt info s) = trace s @ new \<and> list_all quiet new"
  by (simp add: backoff_trace)

lemma logApiResponse_quiet:
  "\<exists>new. trace (logApiResponse env st b s) = trace s @ new \<and> list_all quiet new"
  by (simp add: logApiResponse_def appendLine_def)

lemma logApiRequest_quiet:
  "\<exists>new. trace (logApiRequest env m ep b s) = trace s @ new \<and> list_all quiet new"
  by (simp add: logApiRequest_def appendLine_def)

lemma quiet_failure_lines [simp]: "list_all quiet (failure_lines label failed e)"
  by (simp add: failure_lines_def)

lemma chat_attempts_quiet:
  "\<exists>more. trace (snd (chat_attempts env c msgs tools model so attempt lastError s)) = trace s @ more
     \<and> list_all quiet more"
proof (induction "MAX_RETRIES + 1 - attempt" arbitrary: attempt lastError s)
  case 0
  then have "\<not> attempt \<le> MAX_RETRIES" by simp
  then show ?case
    by (subst chat_attempts.simps) simp
next
  case (Suc n)
  let ?req = "build_request c msgs tools model so"
  from Suc have le: "attempt \<le> MAX_RETRIES" by simp
  obtain r w where g: "generateText env ?req (world s) = (r, w)"
    by (cases "generateText env ?req (world s)") simp
  let ?s2 = "(record_event (GenerateText ?req) s)\<lparr>world := w\<rparr>"
  show ?case
  proof (cases r)
    case (Inr resp)
    have "chat_attempts env c msgs tools model so attempt lastError s =
       (Inr (to_response env w resp), logApiResponse env 200 (response_log_body resp) ?s2)"
      using le g Inr by (subst chat_attempts.simps) (simp add: Let_def)
    then show ?thesis
      using logApiResponse_quiet [of env 200 "response_log_body resp" ?s2]
      by auto
  next
    case (Inl e)
    let ?s3 = "log_failure (call_label c model ''/chat'') ''GrokClient.chat failed'' e (classifyError e) ?s2"
    have t3: "trace ?s3 = trace s @ GenerateText ?req # failure_lines (call_label c model ''/chat'') ''GrokClient.chat failed'' e"
      by (simp add: log_failure_lines)
    show ?thesis
    proof (cases "info_retryable (classifyError e) \<and> attempt < MAX_RETRIES")
      case False
      have "chat_attempts env c msgs tools model so attempt lastError s = (Inl (GrokApiError (classifyError e)), ?s3)"
        by (rule chat_attempts_raise) (use g Inl False le in auto)
      then show ?thesis
        by (simp add: t3)
    next
      case True
      let ?s4 = "backoff env ''chat'' attempt (classifyError e) ?s3"
      have step: "chat_attempts env c msgs tools model so attempt lastError s =
          chat_attempts env c msgs tools model so (Suc attempt) e ?s4"
        by (rule chat_attempts_retry) (use g Inl True in simp_all)
      have n: "n = MAX_RETRIES + 1 - Suc attempt"
        using Suc by simp
      from Suc.hyps(1) [OF n, of e ?s4] obtain more where
        r: "trace (snd (chat_attempts env c msgs tools model so (Suc attempt) e ?s4)) = trace ?s4 @ more"
        and q: "list_all quiet more"
        by blast
      from backoff_quiet [of env "''chat''" attempt "classifyError e" ?s3] obtain new where
        b: "trace ?s4 = trace ?s3 @ new" and nb: "list_all quiet new"
        by blast
      show ?thesis
        unfolding step r b t3 using q nb
        by (intro exI [of _ "GenerateText ?req
              # failure_lines (call_label c model ''/chat'') ''GrokClient.chat failed'' e @ new @ more"])
           simp
    qed
  qed
qed

lemma chat_quiet:
  "\<exists>more. trace (snd (chat env c msgs tools model so s)) = trace s @ more \<and> list_all quiet more"
proof -
  let ?s0 = "logApiRequest env ''POST'' (call_label c model ''/chat'') (request_log_body msgs tools) s"
  from logApiRequest_quiet [of env "''POST''" "call_label c model ''/chat''" "request_log_body msgs tools" s]
  obtain new where a: "trace ?s0 = trace s @ new" "list_all quiet new"
    by blast
  from chat_attempts_quiet [of env c msgs tools model so 0 js_undefined ?s0]
  obtain more where b: "trace (snd (chat env c msgs tools model so s)) = trace ?s0 @ more" "list_all quiet more"
    unfolding chat_def by blast
  from a b show ?thesis
    by (intro exI [of _ "new @ more"]) simp
qed

text \<open>Only the structured error leaves the transport.\<close>

lemma chat_attempts_raises_structured:
  "fst (chat_attempts env c msgs tools model so attempt lastError s) = Inl x \<Longrightarrow> \<exists>info. x = GrokApiError info"
proof (induction "MAX_RETRIES + 1 - attempt" arbitrary: attempt lastError s)
  case 0
  then have "\<not> attempt \<le> MAX_RETRIES" by simp
  with "0.prems" show ?case
    by (subst (asm) chat_attempts.simps) auto
next
  case (Suc n)
  let ?req = "build_request c msgs tools model so"
  from Suc have le: "attempt \<le> MAX_RETRIES" by simp
  obtain r w where g: "generateText env ?req (world s) = (r, w)"
    by (cases "generateText env ?req (world s)") simp
  show ?case
  proof (cases r)
    case (Inr resp)
    with Suc.prems le g show ?thesis
      by (subst (asm) chat_attempts.simps) (simp add: Let_def)
  next
    case (Inl e)
    show ?thesis
    proof (cases "info_retryable (classifyError e) \<and> attempt < MAX_RETRIES")
      case False
      with Suc.prems le g Inl show ?thesis
        by (subst (asm) chat_attempts.simps) (auto simp add: Let_def)
    next
      case True
      have n: "n = MAX_RETRIES + 1 - Suc attempt"
        using Suc by simp
      from Suc.prems le g Inl True show ?thesis
        by (subst (asm) chat_attempts.simps) (auto simp add: Let_def dest: Suc.hyps(1) [OF n])
    qed
  qed
qed

lemma chat_raises_structured:
  "chat env c msgs tools model so s = (Inl x, s') \<Longrightarrow> \<exists>info. x = GrokApiError info"
proof -
  assume "chat env c msgs tools model so s = (Inl x, s')"
  then have "fst (chat_attempts env c msgs tools model so 0 js_undefined
      (logApiRequest env ''POST'' (call_label c model ''/chat'') (request_log_body msgs tools) s)) = Inl x"
    by (simp add: chat_def)
  then show ?thesis
    by (rule chat_attempts_raises_structured)
qed

lemma no_search_go: "getSearchOptions st ''go'' = None"
  by (simp add: getSearchOptions_def shouldUseSearchFor_def toLowerCase_def search_keywords_def
      Let_def)

lemma chat_malformed:
  "chat (example_env malformed_backend) example_client msgs (Some []) None None \<lparr>world = 0, trace = t\<rparr> =
    (Inr \<lparr>choices = [\<lparr>choice_message = \<lparr>rm_role = ''assistant'', rm_content = None,
             rm_tool_calls = Some [tool_call ''call_A'' ''bash'' ''{'', tool_call ''call_B'' ''glob'' ''{}'']\<rparr>,
           finish_reason = ''tool-calls''\<rparr>]\<rparr>,
     \<lparr>world = 1, trace = t @ [
        AppendLine (API_REQUEST ''POST'' (call_label example_client None ''/chat'') (Some (request_log_body msgs (Some [])))),
        GenerateText (build_request example_client msgs (Some []) None None),
        AppendLine (API_RESPONSE 200 (Some (response_log_body (tool_calls_response [sdk_call ''call_A'' ''bash'' (JStr ''{''), sdk_call ''call_B'' ''glob'' (JObj [])]))))]\<rparr>)"
  by (simp add: chat_def chat_attempts.simps [of _ _ _ _ _ _ 0] example_env_def malformed_backend_def
      logApiRequest_def logApiResponse_def isDebug_def appendLine_def safeBody_def request_log_body_def
      response_log_body_def to_response_def convertToolCalls_def convertToolCall_def tool_calls_response_def
      sdk_call_def tool_call_def str_or_def str_or_default_def record_event_def Let_def)

lemma tools_example: "getAllGrokTools (example_env b) w = ([], w)"
  by (simp add: example_env_def)

lemma now_example: "Date_now (example_env b) w = w"
  by (simp add: example_env_def)

lemma build_malformed:
  "buildAssistantMessage (example_env b) \<lparr>rm_role = ''assistant'', rm_content = None,
             rm_tool_calls = Some [tool_call ''call_A'' ''bash'' ''{'', tool_call ''call_B'' ''glob'' ''{}'']\<rparr>
    = Inl (js_Error ''SyntaxError'' ''Unexpected end of JSON input'')"
  by (simp add: buildAssistantMessage_def tool_call_def example_env_def example_parse_def)

lemma malformed_run:
  "0 < limit \<Longrightarrow>
   processUserMessage (example_env malformed_backend) ''go'' (example_agent limit) start =
        (Inl (Raw (js_Error ''SyntaxError'' ''Unexpected end of JSON input'')),
         (example_agent limit)\<lparr>messages := messages (example_agent limit) @ [\<lparr>msg_role = ''user'', msg_content = Text ''go''\<rparr>]\<rparr>,
         snd (chat (example_env malformed_backend) example_client
                (messages (example_agent limit) @ [\<lparr>msg_role = ''user'', msg_content = Text ''go''\<rparr>])
                (Some []) None None
                \<lparr>world = 0, trace = [PushMessage \<lparr>msg_role = ''user'', msg_content = Text ''go''\<rparr>]\<rparr>))"
  apply (simp add: processUserMessage_def start_def push_message_def record_event_def tools_example)
  apply (subst buffered_rounds.simps)
  apply (simp add: no_search_go chat_malformed build_malformed example_agent_def)
  done


lemma run_tools_returns:
  "\<exists>st' s'. run_tools env tcs st s = (Inr (), st', s')"
proof (induction tcs arbitrary: st s)
  case Nil
  show ?case by simp
next
  case (Cons tc tcs)
  from executeTool_returns obtain r s1 where "executeTool env (morphEditor st) tc s = (Inr r, s1)"
    by blast
  with Cons show ?case
    by (simp add: Let_def split: prod.splits)
qed

lemma run_tools_inv:
  "run_tools env tcs st s = (r, st', s') \<Longrightarrow>
   \<exists>more. trace s' = trace s @ more \<and> messages st' = messages st @ pushes more
      \<and> list_all (stored_ok env) (pushes more)"
proof (induction tcs arbitrary: st s)
  case Nil
  then show ?case by simp
next
  case (Cons tc tcs)
  from executeTool_trace [of env "morphEditor st" tc s] obtain result s1 lines where
    ex: "executeTool env (morphEditor st) tc s = (Inr result, s1)"
    and t1: "trace s1 = trace s @ ExecuteTool tc # lines" and l: "list_all is_log lines"
    by blast
  let ?st1 = "push_entry (tool_result_entry (Date_now env (world s1)) tc result) st"
  let ?p = "push_message (buildToolResultMessage tc result) ?st1 s1"
  from Cons.prems ex have "run_tools env tcs (fst ?p) (snd ?p) = (r, st', s')"
    by (simp add: Let_def split: prod.splits)
  from Cons.IH [OF this] obtain more where
    m: "trace s' = trace (snd ?p) @ more" "messages st' = messages (fst ?p) @ pushes more"
       "list_all (stored_ok env) (pushes more)"
    by blast
  have ok: "stored_ok env (buildToolResultMessage tc result)"
    by (auto simp add: stored_ok_def)
  show ?case
    using m t1 ok pushes_logs [OF l]
    by (intro exI [of _ "ExecuteTool tc # lines @ PushMessage (buildToolResultMessage tc result) # more"])
       (simp add: push_message_def)
qed

lemma finish_rounds_inv:
  "finish_rounds env n cr st s = (r, st', s') \<Longrightarrow> messages st' = messages st \<and> s' = s"
  by (auto simp add: finish_rounds_def split: if_splits)

lemma buffered_rounds_inv:
  "buffered_rounds env message tools toolRounds cr st s = (r, st', s') \<Longrightarrow>
   \<exists>more. trace s' = trace s @ more \<and> messages st' = messages st @ pushes more
      \<and> list_all (stored_ok env) (pushes more)"
proof (induction env message tools toolRounds cr st s arbitrary: r st' s' rule: buffered_rounds.induct)
  case (1 env message tools toolRounds currentResponse st s)
  show ?case
  proof (cases "toolRounds < maxToolRounds st")
    case False
    with "1.prems" show ?thesis
      by (subst (asm) buffered_rounds.simps) (auto dest: finish_rounds_inv)
  next
    case True
    obtain cres s1 where ch: "chat env (grokClient st) (messages st) (Some tools) None
        (getSearchOptions st message) s = (cres, s1)"
      by (cases "chat env (grokClient st) (messages st) (Some tools) None (getSearchOptions st message) s") simp
    from chat_quiet [of env "grokClient st" "messages st" "Some tools" None "getSearchOptions st message" s] ch
    obtain q where q: "trace s1 = trace s @ q" "list_all quiet q"
      by auto
    have pq: "pushes q = []"
      using q(2) by (rule pushes_quiet)
    show ?thesis
    proof (cases cres)
      case (Inl e)
      with "1.prems" True ch have "st' = st" "s' = s1"
        by (subst (asm) buffered_rounds.simps, simp)+
      with q pq show ?thesis
        by (intro exI [of _ q]) simp
    next
      case (Inr response)
      show ?thesis
      proof (cases "choices response")
        case Nil
        with "1.prems" True ch Inr have "st' = st" "s' = s1"
          by (subst (asm) buffered_rounds.simps, simp)+
        with q pq show ?thesis
          by (intro exI [of _ q]) simp
      next
        case (Cons c others)
        show ?thesis
        proof (cases "buildAssistantMessage env (choice_message c)")
          case (Inl e)
          with "1.prems" True ch Inr Cons have "st' = st" "s' = s1"
            by (subst (asm) buffered_rounds.simps, simp)+
          with q pq show ?thesis
            by (intro exI [of _ q]) simp
        next
          case bm: (Inr m)
          let ?p = "push_message m st s1"
          let ?st2 = "push_entry (assistant_entry (Date_now env (world (snd ?p))) (choice_message c)) (fst ?p)"
          have ok_m: "stored_ok env m"
            using bm by (auto simp add: stored_ok_def)
          have m2: "messages ?st2 = messages st @ [m]" by simp
          have t2: "trace (snd ?p) = trace s @ q @ [PushMessage m]"
            by (simp add: push_message_def q)
          show ?thesis
          proof (cases "\<exists>tcs. rm_tool_calls (choice_message c) = Some tcs \<and> tcs \<noteq> []")
            case False
            with "1.prems" True ch Inr Cons bm
            have "finish_rounds env toolRounds (Some response) ?st2 (snd ?p) = (r, st', s')"
              by (subst (asm) buffered_rounds.simps)
                 (auto simp add: Let_def split: prod.splits option.splits if_splits)
            from finish_rounds_inv [OF this] m2 t2 ok_m pq show ?thesis
              by (intro exI [of _ "q @ [PushMessage m]"]) simp
          next
            case tc: True
            then obtain tcs where tcs: "rm_tool_calls (choice_message c) = Some tcs" "tcs \<noteq> []"
              by blast
            from run_tools_returns [of env tcs ?st2 "snd ?p"] obtain st3 s3 where
              rt: "run_tools env tcs ?st2 (snd ?p) = (Inr (), st3, s3)"
              by blast
            from run_tools_inv [OF rt] obtain more3 where
              a3: "trace s3 = trace (snd ?p) @ more3" "messages st3 = messages ?st2 @ pushes more3"
                  "list_all (stored_ok env) (pushes more3)"
              by blast
            from "1.prems" True ch Inr Cons bm tcs rt
            have rec: "buffered_rounds env message tools (toolRounds + 1) (Some response) st3 s3 = (r, st', s')"
              by (subst (asm) buffered_rounds.simps)
                 (simp add: Let_def split: prod.splits del: run_tools.simps)
            have "\<exists>more. trace s' = trace s3 @ more \<and> messages st' = messages st3 @ pushes more
                \<and> list_all (stored_ok env) (pushes more)"
              by (rule "1.IH" [OF True ch [symmetric] Inr Cons refl bm refl prod.collapse refl
                    tcs(1) tcs(2) rt [symmetric] refl refl rec])
            then obtain more' where a': "trace s' = trace s3 @ more'"
                "messages st' = messages st3 @ pushes more'" "list_all (stored_ok env) (pushes more')"
              by blast
            show ?thesis
              using a' a3 m2 t2 ok_m pq
              by (intro exI [of _ "q @ PushMessage m # more3 @ more'"]) simp
          qed
        qed
      qed
    qed
  qed
qed


lemma run_tools_two:
  "\<exists>rA sA lA rB sB lB st' s'.
      executeTool env (morphEditor st) A s = (Inr rA, sA)
    \<and> trace sA = trace s @ ExecuteTool A # lA \<and> list_all is_log lA
    \<and> executeTool env (morphEditor st) B (record_event (PushMessage (buildToolResultMessage A rA)) sA)
         = (Inr rB, sB)
    \<and> list_all is_log lB
    \<and> run_tools env [A, B] st s = (Inr (), st', s')
    \<and> messages st' = messages st @ [buildToolResultMessage A rA, buildToolResultMessage B rB]
    \<and> trace s' = trace s @ ExecuteTool A # lA @ PushMessage (buildToolResultMessage A rA)
                     # ExecuteTool B # lB @ [PushMessage (buildToolResultMessage B rB)]"
proof -
  from executeTool_trace [of env "morphEditor st" A s] obtain rA sA lA where
    a: "executeTool env (morphEditor st) A s = (Inr rA, sA)"
    and ta: "trace sA = trace s @ ExecuteTool A # lA" and la: "list_all is_log lA"
    by blast
  let ?s1 = "record_event (PushMessage (buildToolResultMessage A rA)) sA"
  from executeTool_trace [of env "morphEditor st" B ?s1] obtain rB sB lB where
    b: "executeTool env (morphEditor st) B ?s1 = (Inr rB, sB)"
    and tb: "trace sB = trace ?s1 @ ExecuteTool B # lB" and lb: "list_all is_log lB"
    by blast
  show ?thesis
    using a ta la b tb lb
    by (simp add: push_message_def push_entry_def Let_def)
qed

text \<open>
  Buffered mode, a reply with two tool calls whose argument texts parse: the history gains
  the assistant message, then the result of the first call, then the result of the second,
  and the second call is dispatched after the result of the first has been stored.
\<close>

lemma buffered_two_tool_calls:
  assumes lt: "toolRounds < maxToolRounds st"
    and ch: "chat env (grokClient st) (messages st) (Some tools) None (getSearchOptions st message) s
               = (Inr response, s1)"
    and c: "choices response = c # others"
    and tcs: "rm_tool_calls (choice_message c) = Some [A, B]"
    and bm: "buildAssistantMessage env (choice_message c) = Inr m"
  shows "\<exists>rA rB lA lB rest more.
      messages (fst (snd (buffered_rounds env message tools toolRounds cr st s)))
        = messages st @ [m, buildToolResultMessage A rA, buildToolResultMessage B rB] @ rest
    \<and> trace (snd (snd (buffered_rounds env message tools toolRounds cr st s)))
        = trace s1 @ PushMessage m # ExecuteTool A # lA @ PushMessage (buildToolResultMessage A rA)
            # ExecuteTool B # lB @ PushMessage (buildToolResultMessage B rB) # more
    \<and> list_all is_log lA \<and> list_all is_log lB"
proof -
  let ?p = "push_message m st s1"
  let ?st2 = "push_entry (assistant_entry (Date_now env (world (snd ?p))) (choice_message c)) (fst ?p)"
  from run_tools_two [of env ?st2 A "snd ?p" B] obtain rA lA rB lB st3 s3 where
    la: "list_all is_log lA" and lb: "list_all is_log lB"
    and rt: "run_tools env [A, B] ?st2 (snd ?p) = (Inr (), st3, s3)"
    and m3: "messages st3 = messages ?st2 @ [buildToolResultMessage A rA, buildToolResultMessage B rB]"
    and t3: "trace s3 = trace (snd ?p) @ ExecuteTool A # lA @ PushMessage (buildToolResultMessage A rA)
                     # ExecuteTool B # lB @ [PushMessage (buildToolResultMessage B rB)]"
    by blast
  have step: "buffered_rounds env message tools toolRounds cr st s =
      buffered_rounds env message tools (toolRounds + 1) (Some response) st3 s3"
    using lt ch c tcs bm rt
    by (subst buffered_rounds.simps)
       (auto simp add: Let_def simp del: run_tools.simps split: prod.splits)
  obtain r st' s' where res: "buffered_rounds env message tools (toolRounds + 1) (Some response) st3 s3
      = (r, st', s')"
    by (cases "buffered_rounds env message tools (toolRounds + 1) (Some response) st3 s3") auto
  from buffered_rounds_inv [OF res] obtain more where
    m': "messages st' = messages st3 @ pushes more" and t': "trace s' = trace s3 @ more"
    by blast
  have a: "messages (fst (snd (r, st', s')))
      = messages st @ [m, buildToolResultMessage A rA, buildToolResultMessage B rB] @ pushes more"
    using m' m3 by simp
  have b: "trace (snd (snd (r, st', s')))
      = trace s1 @ PushMessage m # ExecuteTool A # lA @ PushMessage (buildToolResultMessage A rA)
            # ExecuteTool B # lB @ PushMessage (buildToolResultMessage B rB) # more"
    using t' t3 by (simp add: push_message_def)
  show ?thesis
    unfolding step res using a b la lb by blast
qed


text \<open>
  With the round limit at 1 and a reply that requests tools with well-formed arguments, the
  loop runs one round and stops: one model call, the tools of that reply, then the notice.
\<close>

lemma round_limit_one:
  assumes lim: "maxToolRounds st = 1"
    and ch: "chat env (grokClient st) (messages st) (Some tools) None (getSearchOptions st message) s
               = (Inr response, s1)"
    and c: "choices response = c # others"
    and tcs: "rm_tool_calls (choice_message c) = Some tcs" "tcs \<noteq> []"
    and bm: "buildAssistantMessage env (choice_message c) = Inr m"
  shows "\<exists>st3 s3.
      run_tools env tcs
        (push_entry (assistant_entry (Date_now env (world (snd (push_message m st s1)))) (choice_message c))
           (fst (push_message m st s1)))
        (snd (push_message m st s1)) = (Inr (), st3, s3)
    \<and> buffered_rounds env message tools 0 cr st s =
        (Inr (Some response),
         push_entry (notice_entry (Date_now env (world s3)) max_rounds_text) st3, s3)"
proof -
  let ?p = "push_message m st s1"
  let ?st2 = "push_entry (assistant_entry (Date_now env (world (snd ?p))) (choice_message c)) (fst ?p)"
  from run_tools_returns [of env tcs ?st2 "snd ?p"] obtain st3 s3 where
    rt: "run_tools env tcs ?st2 (snd ?p) = (Inr (), st3, s3)"
    by blast
  have "maxToolRounds st3 = maxToolRounds ?st2"
    using rt by (rule run_tools_maxToolRounds)
  then have l3: "maxToolRounds st3 = 1"
    using lim by (simp add: push_message_def push_entry_def)
  have step: "buffered_rounds env message tools 0 cr st s =
      buffered_rounds env message tools (0 + 1) (Some response) st3 s3"
    using lim ch c tcs bm rt
    by (subst buffered_rounds.simps)
       (auto simp add: Let_def simp del: run_tools.simps split: prod.splits)
  have stop: "buffered_rounds env message tools (0 + 1) (Some response) st3 s3 =
      (Inr (Some response), push_entry (notice_entry (Date_now env (world s3)) max_rounds_text) st3, s3)"
    using l3 by (subst buffered_rounds.simps) (simp add: finish_rounds_def)
  show ?thesis
    using rt step stop by simp
qed

text \<open>
  Claim C3 fails on the buffered path. The SDK hands an argument text it could not parse to
  the program as it is, \<^verbatim>\<open>convertToolCalls\<close> passes it on, and \<^verbatim>\<open>buildAssistantMessage\<close>
  parses it outside any \<^verbatim>\<open>try\<close>: the caller of \<^verbatim>\<open>processUserMessage\<close> receives the
  raw \<^verbatim>\<open>SyntaxError\<close>, not the structured error.
\<close>

theorem processUserMessage_raises_raw_error:
  "fst (processUserMessage (example_env malformed_backend) ''go'' (example_agent 400) start)
     = Inl (Raw (js_Error ''SyntaxError'' ''Unexpected end of JSON input''))"
  by (simp add: malformed_run)

text \<open>
  Claim C1 at the same reply, which carries the two tool calls \<open>call_A\<close> (malformed
  arguments) and \<open>call_B\<close>: the call raises before the assistant message is stored and
  before any tool runs, so the history ends with the user message and holds no tool result.
\<close>

theorem malformed_reply_stores_no_tool_result:
  "fst (chat (example_env malformed_backend) example_client
          (messages (example_agent 400) @ [user_message ''go'']) (Some []) None None
          \<lparr>world = 0, trace = [PushMessage (user_message ''go'')]\<rparr>)
     = Inr \<lparr>choices = [\<lparr>choice_message = \<lparr>rm_role = ''assistant'', rm_content = None,
              rm_tool_calls = Some [tool_call ''call_A'' ''bash'' ''{'', tool_call ''call_B'' ''glob'' ''{}'']\<rparr>,
            finish_reason = ''tool-calls''\<rparr>]\<rparr>
   \<and> messages (fst (snd (processUserMessage (example_env malformed_backend) ''go''
         (example_agent 400) start)))
       = messages (example_agent 400) @ [user_message ''go'']
   \<and> list_all (\<lambda>ev. case ev of ExecuteTool tc \<Rightarrow> False | _ \<Rightarrow> True)
        (trace (snd (snd (processUserMessage (example_env malformed_backend) ''go''
           (example_agent 400) start))))"
  by (simp add: malformed_run chat_malformed user_message_def)

text \<open>
  Claim C5 at a model that always requests tool calls, the first with malformed arguments,
  and the round limit 1: the call raises and the chat log gets no terminal entry.
\<close>

theorem round_limit_malformed_raises:
  "maxToolRounds (example_agent (configured_maxToolRounds (Some 1))) = 1
   \<and> fst (processUserMessage (example_env malformed_backend) ''go''
         (example_agent (configured_maxToolRounds (Some 1))) start)
       = Inl (Raw (js_Error ''SyntaxError'' ''Unexpected end of JSON input''))
   \<and> chatHistory (fst (snd (processUserMessage (example_env malformed_backend) ''go''
         (example_agent (configured_maxToolRounds (Some 1))) start))) = []"
  by (simp add: malformed_run configured_maxToolRounds_def) (simp add: example_agent_def)
section \<open>Properties of the streaming Agent Loop\<close>

lemma calm_steady: "calm ev \<Longrightarrow> steady ev"
  by (cases ev) simp_all

lemma list_all_calm_steady: "list_all calm t \<Longrightarrow> list_all steady t"
  by (induction t) (auto intro: calm_steady)





lemma pushes_cancel_tail [simp]: "pushes cancel_tail = []"
  by (simp add: cancel_tail_def)

lemma ends_cancelled_mono:
  "ends_cancelled calm t \<Longrightarrow> ends_cancelled steady t"
  by (auto simp add: ends_cancelled_def intro: list_all_calm_steady)



lemma trace_emit [simp]: "trace (emit env c s) = trace s @ [Yield c]"
  by (simp add: emit_def)

lemma trace_read_aborted [simp]:
  "trace (snd (read_aborted env s)) = trace s @ [AbortRead (signal_aborted env (world s))]"
  "fst (read_aborted env s) = signal_aborted env (world s)"
  by (simp_all add: read_aborted_def)

lemma trace_cancelled [simp]:
  "trace (cancelled env s) = trace s @ [Yield (Content cancel_notice), Yield Done]"
  by (simp add: cancelled_def)







lemma calm_failure_lines [simp]: "list_all calm (failure_lines label failed e)"
  by (simp add: failure_lines_def)


























section \<open>Properties of getChatHistory\<close>

lemma getChatHistory_fresh:
  assumes "allocated this h"
  shows "fst (getChatHistory this h) \<noteq> chatHistory_ref this"
    and "cells (snd (getChatHistory this h)) (fst (getChatHistory this h)) = cells h (chatHistory_ref this)"
    and "cells (snd (getChatHistory this h)) (chatHistory_ref this) = cells h (chatHistory_ref this)"
    and "allocated this (snd (getChatHistory this h))"
  using assms by (auto simp add: getChatHistory_def new_array_def allocated_def)

lemma mutate_other_array:
  "r \<noteq> chatHistory_ref this \<Longrightarrow>
   cells (mutate_array r f h) (chatHistory_ref this) = cells h (chatHistory_ref this)"
  by (simp add: mutate_array_def)

lemma mutate_keeps_allocated:
  "allocated this h \<Longrightarrow> r \<noteq> chatHistory_ref this \<Longrightarrow> allocated this (mutate_array r f h)"
  by (simp add: mutate_array_def allocated_def)

text \<open>
  Claim C10. The array \<^verbatim>\<open>getChatHistory\<close> returns is a new one holding the elements of the
  chat history. Whatever a caller then does to the returned array, the chat history of the
  agent keeps its elements, and a later call returns those elements again, in yet another
  array.
\<close>

theorem getChatHistory_returns_copy:
  assumes "allocated this h"
    and "getChatHistory this h = (r, h1)"
    and "getChatHistory this (mutate_array r f h1) = (r2, h2)"
  shows "r \<noteq> chatHistory_ref this
       \<and> cells h1 r = cells h (chatHistory_ref this)
       \<and> cells h1 (chatHistory_ref this) = cells h (chatHistory_ref this)
       \<and> cells (mutate_array r f h1) (chatHistory_ref this) = cells h (chatHistory_ref this)
       \<and> r2 \<noteq> r \<and> r2 \<noteq> chatHistory_ref this
       \<and> cells h2 r2 = cells h (chatHistory_ref this)
       \<and> cells h2 (chatHistory_ref this) = cells h (chatHistory_ref this)"
proof -
  from getChatHistory_fresh [OF assms(1)] assms(2)
  have r: "r \<noteq> chatHistory_ref this" and c1: "cells h1 r = cells h (chatHistory_ref this)"
    and k1: "cells h1 (chatHistory_ref this) = cells h (chatHistory_ref this)"
    and a1: "allocated this h1"
    by simp_all
  let ?h = "mutate_array r f h1"
  have km: "cells ?h (chatHistory_ref this) = cells h (chatHistory_ref this)"
    by (simp add: mutate_other_array [OF r] k1)
  have am: "allocated this ?h"
    by (rule mutate_keeps_allocated [OF a1 r])
  from getChatHistory_fresh [OF am] assms(3)
  have r2: "r2 \<noteq> chatHistory_ref this" and c2: "cells h2 r2 = cells ?h (chatHistory_ref this)"
    and k2: "cells h2 (chatHistory_ref this) = cells ?h (chatHistory_ref this)"
    by simp_all
  have "r < fresh h1"
    using assms(2) by (auto simp add: getChatHistory_def new_array_def)
  then have "r2 \<noteq> r"
    using assms(3) by (auto simp add: getChatHistory_def new_array_def mutate_array_def)
  with r c1 k1 km r2 c2 k2 show ?thesis
    by simp
qed

theorem getChatHistory_returns_copy_witness:
  "allocated \<lparr>chatHistory_ref = 0\<rparr> example_store
   \<and> getChatHistory \<lparr>chatHistory_ref = 0\<rparr> example_store
       = (1, snd (getChatHistory \<lparr>chatHistory_ref = 0\<rparr> example_store))
   \<and> cells (snd (getChatHistory \<lparr>chatHistory_ref = 0\<rparr> example_store)) 1 = Some [10, 20]
   \<and> cells (mutate_array 1 (\<lambda>xs. tl xs @ [30])
        (snd (getChatHistory \<lparr>chatHistory_ref = 0\<rparr> example_store))) 1 = Some [20, 30]
   \<and> cells (mutate_array 1 (\<lambda>xs. tl xs @ [30])
        (snd (getChatHistory \<lparr>chatHistory_ref = 0\<rparr> example_store))) 0 = Some [10, 20]
   \<and> cells (snd (getChatHistory \<lparr>chatHistory_ref = 0\<rparr>
        (mutate_array 1 (\<lambda>xs. tl xs @ [30])
           (snd (getChatHistory \<lparr>chatHistory_ref = 0\<rparr> example_store)))))
        (fst (getChatHistory \<lparr>chatHistory_ref = 0\<rparr>
        (mutate_array 1 (\<lambda>xs. tl xs @ [30])
           (snd (getChatHistory \<lparr>chatHistory_ref = 0\<rparr> example_store))))) = Some [10, 20]"
proof -
  have a: "allocated \<lparr>chatHistory_ref = 0\<rparr> example_store"
    by (simp add: allocated_def example_store_def)
  have g: "getChatHistory \<lparr>chatHistory_ref = 0\<rparr> example_store
       = (1, snd (getChatHistory \<lparr>chatHistory_ref = 0\<rparr> example_store))"
    by (simp add: getChatHistory_def new_array_def example_store_def)
  have c: "cells example_store (chatHistory_ref \<lparr>chatHistory_ref = 0\<rparr>) = Some [10, 20]"
    by (simp add: example_store_def)
  have m: "cells (mutate_array 1 (\<lambda>xs. tl xs @ [30])
        (snd (getChatHistory \<lparr>chatHistory_ref = 0\<rparr> example_store))) 1 = Some [20, 30]"
    by (simp add: mutate_array_def getChatHistory_def new_array_def example_store_def)
  show ?thesis
    using getChatHistory_returns_copy [OF a g prod.collapse [symmetric],
        where f = "\<lambda>xs. tl xs @ [30]"] a g c m
    by simp
qed

end
